theory Spec2Isabelle
  imports Main "HOL-Library.Word"
begin

unbundle bit_operations_syntax

chapter \<open>The AI assistant: stream decoder, chat relay and context assembler\<close>

text \<open>
  The development embeds two parts of the repository:
  \<^item> \<^verbatim>\<open>streamChat\<close> of \<^verbatim>\<open>src/components/ai-assistant/AIChat.tsx\<close> (lines 56 to 107),
    the browser-side decoder of the server-sent event stream;
  \<^item> the edge function \<^verbatim>\<open>ai-assistant\<close> (\<^verbatim>\<open>serve\<close>, \<^verbatim>\<open>getProjectContext\<close>), the relay
    in front of the model gateway together with its context assembler.
\<close>

section \<open>JavaScript strings\<close>

text \<open>
  A JavaScript string is a sequence of 16-bit code units. \<open>js\<close> writes an ASCII
  literal of the source as such a sequence.
\<close>

type_synonym byte = "8 word"
type_synonym codeunit = "16 word"
type_synonym jstring = "codeunit list"

definition js :: "string \<Rightarrow> jstring" where
  "js s = map of_char s"

definition LF :: codeunit where
  "LF = 0x0A"

definition CR :: codeunit where
  "CR = 0x0D"

text \<open>
  \<^verbatim>\<open>String.prototype.trim\<close> removes the code units of the ECMAScript productions
  WhiteSpace and LineTerminator from both ends.
\<close>

definition isWhiteSpace :: "codeunit \<Rightarrow> bool" where
  "isWhiteSpace c \<longleftrightarrow>
     c = 0x09 \<or> c = 0x0A \<or> c = 0x0B \<or> c = 0x0C \<or> c = 0x0D \<or> c = 0x20 \<or>
     c = 0xA0 \<or> c = 0x1680 \<or> (0x2000 \<le> c \<and> c \<le> 0x200A) \<or>
     c = 0x2028 \<or> c = 0x2029 \<or> c = 0x202F \<or> c = 0x205F \<or> c = 0x3000 \<or>
     c = 0xFEFF"

definition trim :: "jstring \<Rightarrow> jstring" where
  "trim s = rev (dropWhile isWhiteSpace (rev (dropWhile isWhiteSpace s)))"

definition startsWith :: "jstring \<Rightarrow> jstring \<Rightarrow> bool" where
  "startsWith p s \<longleftrightarrow> take (length p) s = p"

definition endsWith :: "codeunit \<Rightarrow> jstring \<Rightarrow> bool" where
  "endsWith c s \<longleftrightarrow> s \<noteq> [] \<and> last s = c"

text \<open>\<^verbatim>\<open>indexOf\<close> answers \<open>-1\<close> when the code unit does not occur: here \<open>None\<close>.\<close>

fun indexOf :: "codeunit \<Rightarrow> jstring \<Rightarrow> nat option" where
  "indexOf c [] = None"
| "indexOf c (x # xs) =
     (if x = c then Some 0
      else case indexOf c xs of None \<Rightarrow> None | Some i \<Rightarrow> Some (Suc i))"

text \<open>\<^verbatim>\<open>split\<close> on a one-unit separator: the empty string splits into one empty piece.\<close>

fun split :: "codeunit \<Rightarrow> jstring \<Rightarrow> jstring list" where
  "split c [] = [[]]"
| "split c (x # xs) =
     (if x = c then [] # split c xs
      else case split c xs of
             [] \<Rightarrow> [[x]]
           | piece # pieces \<Rightarrow> (x # piece) # pieces)"

section \<open>The stream decoder\<close>

subsection \<open>Reading one record\<close>

text \<open>
  The body of the \<^verbatim>\<open>try\<close> block (lines 82 to 84 and 102 to 104) parses the record with the
  platform's \<^verbatim>\<open>JSON.parse\<close>, reads \<^verbatim>\<open>parsed.choices?.[0]?.delta?.content\<close> and calls
  \<^verbatim>\<open>onDelta\<close> when the content is truthy. Its three outcomes are the result type of a
  record reader \<open>rd\<close>, a parameter of the decoder: an exception, no delta, or one delta
  event carrying the value handed to \<^verbatim>\<open>onDelta\<close>.
\<close>

datatype 'd outcome = Throws | NoDelta | Delta 'd

subsection \<open>The inner loop over complete lines (lines 67 to 89)\<close>

text \<open>
  The result is the list of delta events in emission order, the new \<^verbatim>\<open>textBuffer\<close> and
  the flag \<^verbatim>\<open>streamDone\<close>.
\<close>

lemma indexOf_less: "indexOf c xs = Some i \<Longrightarrow> i < length xs"
  by (induction xs arbitrary: i) (auto split: if_splits option.splits)

function lineLoop :: "(jstring \<Rightarrow> 'd outcome) \<Rightarrow> jstring \<Rightarrow> 'd list \<times> jstring \<times> bool" where
  "lineLoop rd textBuffer =
     (case indexOf LF textBuffer of
        None \<Rightarrow> ([], textBuffer, False)
      | Some newlineIndex \<Rightarrow>
          (let line0 = take newlineIndex textBuffer;
               rest = drop (newlineIndex + 1) textBuffer;
               line = (if endsWith CR line0 then butlast line0 else line0)
           in if startsWith (js '':'') line \<or> trim line = [] then lineLoop rd rest
              else if \<not> startsWith (js ''data: '') line then lineLoop rd rest
              else (let jsonStr = trim (drop 6 line)
                    in if jsonStr = js ''[DONE]'' then ([], rest, True)
                       else (case rd jsonStr of
                               Delta content \<Rightarrow>
                                 (case lineLoop rd rest of
                                    (events, textBuffer', streamDone) \<Rightarrow>
                                      (content # events, textBuffer', streamDone))
                             | NoDelta \<Rightarrow> lineLoop rd rest
                             | Throws \<Rightarrow> ([], line @ LF # rest, False)))))"
  by pat_completeness auto
termination
  by (relation "measure (\<lambda>(rd, textBuffer). length textBuffer)")
     (auto dest: indexOf_less)

declare lineLoop.simps [simp del]

subsection \<open>The final flush (lines 92 to 107)\<close>

fun flushLine :: "(jstring \<Rightarrow> 'd outcome) \<Rightarrow> jstring \<Rightarrow> 'd list" where
  "flushLine rd raw0 =
     (if raw0 = [] then []
      else (let raw = (if endsWith CR raw0 then butlast raw0 else raw0)
            in if startsWith (js '':'') raw \<or> trim raw = [] then []
               else if \<not> startsWith (js ''data: '') raw then []
               else (let jsonStr = trim (drop 6 raw)
                     in if jsonStr = js ''[DONE]'' then []
                        else (case rd jsonStr of
                                Delta content \<Rightarrow> [content]
                              | NoDelta \<Rightarrow> []
                              | Throws \<Rightarrow> []))))"

declare flushLine.simps [simp del]

definition finalFlush :: "(jstring \<Rightarrow> 'd outcome) \<Rightarrow> jstring \<Rightarrow> 'd list" where
  "finalFlush rd textBuffer =
     (if trim textBuffer \<noteq> [] then concat (map (flushLine rd) (split LF textBuffer))
      else [])"

subsection \<open>The platform's text decoder\<close>

text \<open>
  \<^verbatim>\<open>new TextDecoder()\<close> is the UTF-8 decoder of the Encoding Standard, in replacement
  mode and with the byte order mark removed. \<^verbatim>\<open>decode(value, {stream: true})\<close> keeps the
  decoder's state between calls, so a character may span two chunks; the source never
  flushes the decoder, so an incomplete last character is dropped.
\<close>

record utf8_decoder =
  codePoint :: nat
  bytesSeen :: nat
  bytesNeeded :: nat
  lowerBoundary :: byte
  upperBoundary :: byte
  bomSeen :: bool

definition newTextDecoder :: utf8_decoder where
  "newTextDecoder =
     \<lparr>codePoint = 0, bytesSeen = 0, bytesNeeded = 0,
      lowerBoundary = 0x80, upperBoundary = 0xBF, bomSeen = False\<rparr>"

definition resetSequence :: "utf8_decoder \<Rightarrow> utf8_decoder" where
  "resetSequence d =
     d\<lparr>codePoint := 0, bytesSeen := 0, bytesNeeded := 0,
       lowerBoundary := 0x80, upperBoundary := 0xBF\<rparr>"

text \<open>The first byte of a sequence; \<open>0xFFFD\<close> is the replacement character.\<close>

definition leadByte :: "utf8_decoder \<Rightarrow> byte \<Rightarrow> nat list \<times> utf8_decoder" where
  "leadByte d b =
     (if b \<le> 0x7F then ([unat b], d)
      else if 0xC2 \<le> b \<and> b \<le> 0xDF then
        ([], d\<lparr>codePoint := unat (b AND 0x1F), bytesNeeded := 1\<rparr>)
      else if 0xE0 \<le> b \<and> b \<le> 0xEF then
        ([], d\<lparr>codePoint := unat (b AND 0x0F), bytesNeeded := 2,
               lowerBoundary := (if b = 0xE0 then 0xA0 else lowerBoundary d),
               upperBoundary := (if b = 0xED then 0x9F else upperBoundary d)\<rparr>)
      else if 0xF0 \<le> b \<and> b \<le> 0xF4 then
        ([], d\<lparr>codePoint := unat (b AND 0x07), bytesNeeded := 3,
               lowerBoundary := (if b = 0xF0 then 0x90 else lowerBoundary d),
               upperBoundary := (if b = 0xF4 then 0x8F else upperBoundary d)\<rparr>)
      else ([0xFFFD], d))"

text \<open>
  One byte. A byte outside the expected range ends the sequence with a replacement
  character and is then read again as the first byte of a new sequence.
\<close>

definition utf8Handler :: "utf8_decoder \<Rightarrow> byte \<Rightarrow> nat list \<times> utf8_decoder" where
  "utf8Handler d b =
     (if bytesNeeded d = 0 then leadByte d b
      else if \<not> (lowerBoundary d \<le> b \<and> b \<le> upperBoundary d) then
        (case leadByte (resetSequence d) b of (cps, d') \<Rightarrow> (0xFFFD # cps, d'))
      else
        (let d' = d\<lparr>codePoint := codePoint d * 64 + unat (b AND 0x3F),
                     bytesSeen := bytesSeen d + 1,
                     lowerBoundary := 0x80, upperBoundary := 0xBF\<rparr>
         in if bytesSeen d' \<noteq> bytesNeeded d' then ([], d')
            else ([codePoint d'], resetSequence d')))"

text \<open>A code point as UTF-16 code units.\<close>

definition utf16 :: "nat \<Rightarrow> jstring" where
  "utf16 cp =
     (if cp < 0x10000 then [of_nat cp]
      else [of_nat (0xD800 + (cp - 0x10000) div 0x400),
            of_nat (0xDC00 + (cp - 0x10000) mod 0x400)])"

text \<open>Serialising the decoded code points drops a byte order mark that comes first.\<close>

fun serialize :: "utf8_decoder \<Rightarrow> nat list \<Rightarrow> jstring \<times> utf8_decoder" where
  "serialize d [] = ([], d)"
| "serialize d (cp # cps) =
     (if bomSeen d then
        (case serialize d cps of (s, d') \<Rightarrow> (utf16 cp @ s, d'))
      else if cp = 0xFEFF then serialize (d\<lparr>bomSeen := True\<rparr>) cps
      else (case serialize (d\<lparr>bomSeen := True\<rparr>) cps of (s, d') \<Rightarrow> (utf16 cp @ s, d')))"

fun decode :: "utf8_decoder \<Rightarrow> byte list \<Rightarrow> jstring \<times> utf8_decoder" where
  "decode d [] = ([], d)"
| "decode d (b # bs) =
     (case utf8Handler d b of
        (cps, d1) \<Rightarrow>
          (case serialize d1 cps of
             (s1, d2) \<Rightarrow>
               (case decode d2 bs of (s2, d3) \<Rightarrow> (s1 @ s2, d3))))"

subsection \<open>The read loop (lines 61 to 90) and \<^verbatim>\<open>streamChat\<close>\<close>

text \<open>
  The reader hands over the chunks of the response body one by one and then reports
  \<^verbatim>\<open>done\<close>; the chunks still unread when \<^verbatim>\<open>streamDone\<close> is set are never read.
\<close>

fun readLoop ::
  "(jstring \<Rightarrow> 'd outcome) \<Rightarrow> utf8_decoder \<Rightarrow> jstring \<Rightarrow> byte list list
     \<Rightarrow> 'd list \<times> jstring \<times> bool" where
  "readLoop rd decoder textBuffer [] = ([], textBuffer, False)"
| "readLoop rd decoder textBuffer (chunk # chunks) =
     (case decode decoder chunk of
        (s, decoder') \<Rightarrow>
          (case lineLoop rd (textBuffer @ s) of
             (events, textBuffer', streamDone) \<Rightarrow>
               if streamDone then (events, textBuffer', True)
               else (case readLoop rd decoder' textBuffer' chunks of
                       (events', textBuffer'', streamDone') \<Rightarrow>
                         (events @ events', textBuffer'', streamDone'))))"

text \<open>The delta events of one call of \<^verbatim>\<open>streamChat\<close>, in the order of the \<^verbatim>\<open>onDelta\<close> calls.\<close>

definition streamChat :: "(jstring \<Rightarrow> 'd outcome) \<Rightarrow> byte list list \<Rightarrow> 'd list" where
  "streamChat rd chunks =
     (case readLoop rd newTextDecoder [] chunks of
        (events, textBuffer, streamDone) \<Rightarrow> events @ finalFlush rd textBuffer)"

subsection \<open>The record reader of the source: \<^verbatim>\<open>JSON.parse\<close> and the optional chain\<close>

text \<open>
  The values \<^verbatim>\<open>JSON.parse\<close> builds. A number keeps its sign, its digits as a natural
  number and its decimal exponent: \<open>JNumber neg m e\<close> is \<open>m * 10 ^ e\<close>, negated when
  \<open>neg\<close> holds. An object keeps its members in the order of the text.
\<close>

datatype json =
    JNull
  | JBool bool
  | JNumber bool nat int
  | JString jstring
  | JArray "json list"
  | JObject "(jstring \<times> json) list"

definition isJsonSpace :: "codeunit \<Rightarrow> bool" where
  "isJsonSpace c \<longleftrightarrow> c = 0x20 \<or> c = 0x09 \<or> c = 0x0A \<or> c = 0x0D"

definition skipSpace :: "jstring \<Rightarrow> jstring" where
  "skipSpace cs = dropWhile isJsonSpace cs"

definition isDigit :: "codeunit \<Rightarrow> bool" where
  "isDigit c \<longleftrightarrow> 0x30 \<le> c \<and> c \<le> 0x39"

definition digitsValue :: "jstring \<Rightarrow> nat" where
  "digitsValue ds = foldl (\<lambda>a c. 10 * a + (unat c - 48)) 0 ds"

definition hexValue :: "codeunit \<Rightarrow> nat option" where
  "hexValue c =
     (if 0x30 \<le> c \<and> c \<le> 0x39 then Some (unat c - 48)
      else if 0x41 \<le> c \<and> c \<le> 0x46 then Some (unat c - 55)
      else if 0x61 \<le> c \<and> c \<le> 0x66 then Some (unat c - 87)
      else None)"

text \<open>The escape after a backslash, other than \<^verbatim>\<open>\u\<close>.\<close>

definition simpleEscape :: "codeunit \<Rightarrow> codeunit option" where
  "simpleEscape c =
     (if c = 0x22 then Some 0x22
      else if c = 0x5C then Some 0x5C
      else if c = 0x2F then Some 0x2F
      else if c = 0x62 then Some 0x08
      else if c = 0x66 then Some 0x0C
      else if c = 0x6E then Some 0x0A
      else if c = 0x72 then Some 0x0D
      else if c = 0x74 then Some 0x09
      else None)"

text \<open>
  A string, read after its opening quote; \<open>acc\<close> holds the code units read so far, last
  first. A control character must be escaped.
\<close>

fun parseString :: "jstring \<Rightarrow> jstring \<Rightarrow> (jstring \<times> jstring) option" where
  "parseString acc [] = None"
| "parseString acc (c # cs) =
     (if c = 0x22 then Some (rev acc, cs)
      else if c = 0x5C then
        (case cs of
           [] \<Rightarrow> None
         | e # cs1 \<Rightarrow>
             if e = 0x75 then
               (case cs1 of
                  h1 # h2 # h3 # h4 # cs2 \<Rightarrow>
                    (case (hexValue h1, hexValue h2, hexValue h3, hexValue h4) of
                       (Some a, Some b, Some c, Some d) \<Rightarrow>
                         parseString (of_nat (((a * 16 + b) * 16 + c) * 16 + d) # acc) cs2
                     | _ \<Rightarrow> None)
                | _ \<Rightarrow> None)
             else
               (case simpleEscape e of
                  None \<Rightarrow> None
                | Some u \<Rightarrow> parseString (u # acc) cs1))
      else if c < 0x20 then None
      else parseString (c # acc) cs)"

text \<open>
  A number: an optional minus sign, \<^verbatim>\<open>0\<close> or a digit sequence that doesn't begin with
  \<^verbatim>\<open>0\<close>, an optional fraction and an optional exponent.
\<close>

definition parseNumber :: "jstring \<Rightarrow> (json \<times> jstring) option" where
  "parseNumber cs =
     (let neg = (cs \<noteq> [] \<and> hd cs = 0x2D);
          cs1 = (if neg then tl cs else cs);
          ds = (if cs1 \<noteq> [] \<and> hd cs1 = 0x30 then [0x30] else takeWhile isDigit cs1);
          cs2 = drop (length ds) cs1
      in if ds = [] then None
         else
           (let hasFrac = (cs2 \<noteq> [] \<and> hd cs2 = 0x2E);
                fs = (if hasFrac then takeWhile isDigit (tl cs2) else []);
                cs3 = (if hasFrac then drop (length fs) (tl cs2) else cs2)
            in if hasFrac \<and> fs = [] then None
               else
                 (let hasExp = (cs3 \<noteq> [] \<and> (hd cs3 = 0x65 \<or> hd cs3 = 0x45));
                      cs4 = (if hasExp then tl cs3 else cs3);
                      expNeg = (hasExp \<and> cs4 \<noteq> [] \<and> hd cs4 = 0x2D);
                      expSign = (hasExp \<and> cs4 \<noteq> [] \<and> (hd cs4 = 0x2D \<or> hd cs4 = 0x2B));
                      cs5 = (if expSign then tl cs4 else cs4);
                      es = (if hasExp then takeWhile isDigit cs5 else []);
                      cs6 = drop (length es) cs5;
                      e = (if expNeg then - int (digitsValue es) else int (digitsValue es))
                  in if hasExp \<and> es = [] then None
                     else Some (JNumber neg (digitsValue (ds @ fs)) (e - int (length fs)), cs6))))"

text \<open>
  A value, the elements of an array after \<^verbatim>\<open>[\<close> and the members of an object after
  \<^verbatim>\<open>{\<close>, each read at a position where the white space is already skipped. The first
  argument bounds the depth of the recursion: of two nested calls at least one has read
  a code unit, and \<open>jsonParse\<close> starts with twice the length of the text and two more.
\<close>

fun parseValue :: "nat \<Rightarrow> jstring \<Rightarrow> (json \<times> jstring) option"
  and parseElements :: "nat \<Rightarrow> jstring \<Rightarrow> (json list \<times> jstring) option"
  and parseMembers :: "nat \<Rightarrow> jstring \<Rightarrow> ((jstring \<times> json) list \<times> jstring) option" where
  "parseValue 0 cs = None"
| "parseValue (Suc n) cs =
     (case cs of
        [] \<Rightarrow> None
      | c # r \<Rightarrow>
          if c = 0x7B then
            (case skipSpace r of
               [] \<Rightarrow> None
             | c' # r' \<Rightarrow>
                 if c' = 0x7D then Some (JObject [], r')
                 else (case parseMembers n (c' # r') of
                         None \<Rightarrow> None
                       | Some (ms, r'') \<Rightarrow> Some (JObject ms, r'')))
          else if c = 0x5B then
            (case skipSpace r of
               [] \<Rightarrow> None
             | c' # r' \<Rightarrow>
                 if c' = 0x5D then Some (JArray [], r')
                 else (case parseElements n (c' # r') of
                         None \<Rightarrow> None
                       | Some (vs, r'') \<Rightarrow> Some (JArray vs, r'')))
          else if c = 0x22 then
            (case parseString [] r of
               None \<Rightarrow> None
             | Some (s, r') \<Rightarrow> Some (JString s, r'))
          else if startsWith (js ''true'') cs then Some (JBool True, drop 4 cs)
          else if startsWith (js ''false'') cs then Some (JBool False, drop 5 cs)
          else if startsWith (js ''null'') cs then Some (JNull, drop 4 cs)
          else parseNumber cs)"
| "parseElements 0 cs = None"
| "parseElements (Suc n) cs =
     (case parseValue n cs of
        None \<Rightarrow> None
      | Some (v, r) \<Rightarrow>
          (case skipSpace r of
             [] \<Rightarrow> None
           | c # r' \<Rightarrow>
               if c = 0x2C then
                 (case parseElements n (skipSpace r') of
                    None \<Rightarrow> None
                  | Some (vs, r'') \<Rightarrow> Some (v # vs, r''))
               else if c = 0x5D then Some ([v], r')
               else None))"
| "parseMembers 0 cs = None"
| "parseMembers (Suc n) cs =
     (case cs of
        [] \<Rightarrow> None
      | q # r \<Rightarrow>
          if q \<noteq> 0x22 then None
          else
            (case parseString [] r of
               None \<Rightarrow> None
             | Some (k, r1) \<Rightarrow>
                 (case skipSpace r1 of
                    [] \<Rightarrow> None
                  | c1 # r2 \<Rightarrow>
                      if c1 \<noteq> 0x3A then None
                      else
                        (case parseValue n (skipSpace r2) of
                           None \<Rightarrow> None
                         | Some (v, r3) \<Rightarrow>
                             (case skipSpace r3 of
                                [] \<Rightarrow> None
                              | c3 # r4 \<Rightarrow>
                                  if c3 = 0x2C then
                                    (case parseMembers n (skipSpace r4) of
                                       None \<Rightarrow> None
                                     | Some (ms, r5) \<Rightarrow> Some ((k, v) # ms, r5))
                                  else if c3 = 0x7D then Some ([(k, v)], r4)
                                  else None)))))"

text \<open>\<^verbatim>\<open>JSON.parse\<close>: \<open>None\<close> stands for the SyntaxError.\<close>

definition jsonParse :: "jstring \<Rightarrow> json option" where
  "jsonParse cs =
     (case parseValue (2 * length cs + 2) (skipSpace cs) of
        None \<Rightarrow> None
      | Some (v, r) \<Rightarrow> if skipSpace r = [] then Some v else None)"

text \<open>
  Reading a property of a value that is neither \<^verbatim>\<open>null\<close> nor \<^verbatim>\<open>undefined\<close>; \<open>None\<close> is
  \<^verbatim>\<open>undefined\<close>. Of a repeated member of an object the last one counts. \<open>member\<close> is
  for the names \<^verbatim>\<open>choices\<close>, \<^verbatim>\<open>delta\<close> and \<^verbatim>\<open>content\<close>, which only an object can have;
  \<open>element0\<close> is the read of \<^verbatim>\<open>[0]\<close>, which an array, a string and an object answer.
\<close>

fun member :: "jstring \<Rightarrow> json \<Rightarrow> json option" where
  "member k (JObject ms) = map_of (rev ms) k"
| "member k v = None"

fun element0 :: "json \<Rightarrow> json option" where
  "element0 (JArray vs) = (case vs of [] \<Rightarrow> None | v # _ \<Rightarrow> Some v)"
| "element0 (JString s) = (case s of [] \<Rightarrow> None | c # _ \<Rightarrow> Some (JString [c]))"
| "element0 (JObject ms) = map_of (rev ms) (js ''0'')"
| "element0 v = None"

text \<open>The optional chain \<^verbatim>\<open>?.\<close> answers \<^verbatim>\<open>undefined\<close> on \<^verbatim>\<open>null\<close> and \<^verbatim>\<open>undefined\<close>.\<close>

fun optional :: "(json \<Rightarrow> json option) \<Rightarrow> json option \<Rightarrow> json option" where
  "optional f None = None"
| "optional f (Some JNull) = None"
| "optional f (Some v) = f v"

text \<open>
  Truthiness. A number is falsy when it is zero as a double: its digits are zero, or it
  is so small that it rounds to zero (at most \<open>2 ^ -1075\<close> in magnitude).
\<close>

fun truthy :: "json \<Rightarrow> bool" where
  "truthy JNull = False"
| "truthy (JBool b) = b"
| "truthy (JNumber neg m e) = (\<not> (m = 0 \<or> (e < 0 \<and> m * 2 ^ 1075 \<le> 10 ^ nat (- e))))"
| "truthy (JString s) = (s \<noteq> [])"
| "truthy (JArray vs) = True"
| "truthy (JObject ms) = True"

text \<open>
  Lines 82 to 84: \<^verbatim>\<open>parsed.choices\<close> of \<^verbatim>\<open>null\<close> is a TypeError, which the \<^verbatim>\<open>catch\<close> treats
  as the SyntaxError of \<^verbatim>\<open>JSON.parse\<close>. The delta event carries the value given to
  \<^verbatim>\<open>onDelta\<close>.
\<close>

definition readRecord :: "jstring \<Rightarrow> json outcome" where
  "readRecord jsonStr =
     (case jsonParse jsonStr of
        None \<Rightarrow> Throws
      | Some parsed \<Rightarrow>
          if parsed = JNull then Throws
          else
            (case optional (member (js ''content''))
                    (optional (member (js ''delta''))
                       (optional element0 (member (js ''choices'') parsed))) of
               None \<Rightarrow> NoDelta
             | Some content \<Rightarrow> if truthy content then Delta content else NoDelta))"

text \<open>
  \<^verbatim>\<open>updateAssistant\<close> appends each delta to \<^verbatim>\<open>assistantContent\<close> (line 130). The text of
  string deltas is their concatenation; a delta of another type would be converted by
  the platform, which is not modelled: \<open>None\<close>.
\<close>

fun assistantContent :: "json list \<Rightarrow> jstring option" where
  "assistantContent [] = Some []"
| "assistantContent (JString s # vs) =
     (case assistantContent vs of None \<Rightarrow> None | Some t \<Rightarrow> Some (s @ t))"
| "assistantContent (v # vs) = None"

text \<open>The bytes of an ASCII text, for the concrete streams below.\<close>

definition ascii :: "string \<Rightarrow> byte list" where
  "ascii s = map of_char s"

section \<open>The context assembler\<close>

subsection \<open>Rows of the backend\<close>

text \<open>
  The rows are those of the queries in \<^verbatim>\<open>getProjectContext\<close> and
  \<^verbatim>\<open>getWorkspaceContext\<close>; a nullable column is an \<open>option\<close>. \<open>due_date\<close> is the
  instant (in milliseconds) that \<^verbatim>\<open>new Date(t.due_date)\<close> stands for. \<open>task_profiles\<close>
  is the embedded row \<^verbatim>\<open>profiles:assigned_to(full_name, email)\<close> and \<open>pm_profiles\<close> the
  embedded row \<^verbatim>\<open>profiles:user_id(id, full_name, email)\<close>; both are \<^verbatim>\<open>null\<close> when no
  profile is joined.
\<close>

record assignee =
  assignee_full_name :: "jstring option"
  assignee_email :: jstring

record task =
  task_id :: jstring
  task_title :: jstring
  task_status :: jstring
  task_priority :: jstring
  due_date :: "int option"
  assigned_to :: "jstring option"
  task_profiles :: "assignee option"

record member_profile =
  mp_id :: jstring
  mp_full_name :: "jstring option"
  mp_email :: jstring

record project_member =
  pm_profiles :: "member_profile option"

record project =
  project_id :: jstring
  project_name :: jstring
  project_description :: "jstring option"
  project_status :: jstring
  start_date :: "jstring option"
  end_date :: "jstring option"

text \<open>
  A query answers \<^verbatim>\<open>{ data, error }\<close> and the source reads \<^verbatim>\<open>data\<close> only: \<open>None\<close> is the
  \<^verbatim>\<open>null\<close> data of a failed lookup (for \<^verbatim>\<open>.single()\<close> also of a lookup without exactly
  one row). The project identifier is whatever the request body carried.
\<close>

record user =
  user_id :: jstring

record backend =
  authGetUser :: "jstring \<Rightarrow> user option"
  selectProject :: "json option \<Rightarrow> project option"
  selectTasks :: "json option \<Rightarrow> task list option"
  selectMembers :: "json option \<Rightarrow> project_member list option"
  selectProjects :: "project list option"
  selectMyTasks :: "jstring \<Rightarrow> task list option"
  selectProfiles :: "member_profile list option"

subsection \<open>The snapshots\<close>

record projectInfo =
  pi_id :: jstring
  pi_name :: jstring
  pi_description :: "jstring option"
  pi_status :: jstring
  pi_startDate :: "jstring option"
  pi_endDate :: "jstring option"

record taskStats =
  ts_total :: nat
  ts_todo :: nat
  ts_inProgress :: nat
  ts_done :: nat
  ts_overdue :: nat

record recentTask =
  rt_id :: jstring
  rt_title :: jstring
  rt_status :: jstring
  rt_priority :: jstring
  rt_dueDate :: "int option"
  rt_assignee :: jstring

record teamMember =
  tm_id :: "jstring option"
  tm_name :: "jstring option"
  tm_taskCount :: nat

record projectContext =
  pc_project :: "projectInfo option"
  pc_taskStats :: taskStats
  pc_recentTasks :: "recentTask list option"
  pc_teamMembers :: "teamMember list option"
  pc_workloadDistribution :: "jstring \<rightharpoonup> nat"

record projectSummary =
  ps_id :: jstring
  ps_name :: jstring
  ps_status :: jstring

record pendingTask =
  pt_id :: jstring
  pt_title :: jstring
  pt_status :: jstring
  pt_priority :: jstring
  pt_dueDate :: "int option"

record workspaceMember =
  wm_id :: jstring
  wm_name :: jstring

record workspaceContext =
  wc_projects :: "projectSummary list option"
  wc_myPendingTasks :: "pendingTask list option"
  wc_teamMembers :: "workspaceMember list option"

text \<open>
  What the relay does to the world, in order: the calls of the backend, the request to
  the model gateway and the lines written to the log. The request to the gateway carries
  the key, the model, the context block appended to the system prompt, the transcript
  and the \<^verbatim>\<open>stream\<close> flag.
\<close>

datatype contextBlock =
    ProjectContextBlock projectContext
  | WorkspaceContextBlock workspaceContext

record payload =
  gw_key :: jstring
  gw_model :: jstring
  gw_context :: contextBlock
  gw_messages :: "json list"
  gw_stream :: bool

definition gatewayModel :: jstring where
  "gatewayModel = js ''google/gemini-3-flash-preview''"

datatype call =
    GetUser jstring
  | SelectProject "json option"
  | SelectTasks "json option"
  | SelectMembers "json option"
  | SelectProjects
  | SelectMyTasks jstring
  | SelectProfiles
  | GatewayFetch payload
  | ConsoleError

text \<open>
  The filter of \<^verbatim>\<open>overdue\<close> (line 566) reads the clock with \<^verbatim>\<open>new Date()\<close> once for every
  task that has a due date. \<open>clock k\<close> is the reading number \<open>k\<close> of the request, and the
  second argument counts the readings taken so far.
\<close>

fun overdueFilter :: "(nat \<Rightarrow> int) \<Rightarrow> nat \<Rightarrow> task list \<Rightarrow> task list" where
  "overdueFilter clock k [] = []"
| "overdueFilter clock k (t # ts) =
     (case due_date t of
        None \<Rightarrow> overdueFilter clock k ts
      | Some due \<Rightarrow>
          if due < clock k \<and> task_status t \<noteq> js ''done''
          then t # overdueFilter clock (Suc k) ts
          else overdueFilter clock (Suc k) ts)"

text \<open>
  The \<^verbatim>\<open>forEach\<close> of lines 570 to 575. \<^verbatim>\<open>if (task.assigned_to)\<close> is false for \<^verbatim>\<open>null\<close> and
  for the empty string. The keys are user identifiers, none of which names a property
  of \<^verbatim>\<open>Object.prototype\<close>.
\<close>

fun workloadOf :: "(jstring \<rightharpoonup> nat) \<Rightarrow> task list \<Rightarrow> (jstring \<rightharpoonup> nat)" where
  "workloadOf workload [] = workload"
| "workloadOf workload (t # ts) =
     (case assigned_to t of
        None \<Rightarrow> workloadOf workload ts
      | Some a \<Rightarrow>
          if a = [] then workloadOf workload ts
          else workloadOf
                 (workload(a \<mapsto> (case workload a of None \<Rightarrow> 0 | Some n \<Rightarrow> n) + 1)) ts)"

text \<open>
  \<^verbatim>\<open>t.profiles?.full_name || "Unassigned"\<close> (line 593): \<^verbatim>\<open>undefined\<close>, \<^verbatim>\<open>null\<close> and the
  empty string are falsy.
\<close>

definition assigneeName :: "task \<Rightarrow> jstring" where
  "assigneeName t =
     (case task_profiles t of
        None \<Rightarrow> js ''Unassigned''
      | Some p \<Rightarrow>
          (case assignee_full_name p of
             None \<Rightarrow> js ''Unassigned''
           | Some n \<Rightarrow> if n \<noteq> [] then n else js ''Unassigned''))"

definition recentTaskOf :: "task \<Rightarrow> recentTask" where
  "recentTaskOf t =
     \<lparr>rt_id = task_id t, rt_title = task_title t, rt_status = task_status t,
      rt_priority = task_priority t, rt_dueDate = due_date t,
      rt_assignee = assigneeName t\<rparr>"

text \<open>
  Lines 595 to 600. \<^verbatim>\<open>m.profiles?.id\<close> of a member without profile is \<^verbatim>\<open>undefined\<close>, and
  \<^verbatim>\<open>workload[undefined]\<close> reads the key \<^verbatim>\<open>"undefined"\<close>.
\<close>

definition memberName :: "member_profile \<Rightarrow> jstring" where
  "memberName p =
     (case mp_full_name p of
        None \<Rightarrow> mp_email p
      | Some n \<Rightarrow> if n \<noteq> [] then n else mp_email p)"

definition workloadKey :: "project_member \<Rightarrow> jstring" where
  "workloadKey m = (case pm_profiles m of None \<Rightarrow> js ''undefined'' | Some p \<Rightarrow> mp_id p)"

definition teamMemberOf :: "(jstring \<rightharpoonup> nat) \<Rightarrow> project_member \<Rightarrow> teamMember" where
  "teamMemberOf workload m =
     \<lparr>tm_id = map_option mp_id (pm_profiles m),
      tm_name = map_option memberName (pm_profiles m),
      tm_taskCount = (case workload (workloadKey m) of None \<Rightarrow> 0 | Some n \<Rightarrow> n)\<rparr>"

definition projectInfoOf :: "project \<Rightarrow> projectInfo" where
  "projectInfoOf p =
     \<lparr>pi_id = project_id p, pi_name = project_name p,
      pi_description = project_description p, pi_status = project_status p,
      pi_startDate = start_date p, pi_endDate = end_date p\<rparr>"

text \<open>\<^verbatim>\<open>tasks?.filter(...).length || 0\<close>: zero when \<^verbatim>\<open>tasks\<close> is \<^verbatim>\<open>null\<close>.\<close>

definition countOf :: "task list option \<Rightarrow> (task list \<Rightarrow> task list) \<Rightarrow> nat" where
  "countOf tasks f = (case tasks of None \<Rightarrow> 0 | Some ts \<Rightarrow> length (f ts))"

text \<open>
  \<^verbatim>\<open>getProjectContext\<close> (lines 539 to 602): the snapshot and the three lookups made for
  it. \<^verbatim>\<open>userId\<close> is a parameter the body does not use.
\<close>

definition getProjectContext ::
  "backend \<Rightarrow> (nat \<Rightarrow> int) \<Rightarrow> jstring \<Rightarrow> json option \<Rightarrow> projectContext \<times> call list" where
  "getProjectContext supabase clock userId projectId =
     (let project = selectProject supabase projectId;
          tasks = selectTasks supabase projectId;
          members = selectMembers supabase projectId;
          taskStats =
            \<lparr>ts_total = countOf tasks (\<lambda>ts. ts),
             ts_todo = countOf tasks (filter (\<lambda>t. task_status t = js ''todo'')),
             ts_inProgress = countOf tasks (filter (\<lambda>t. task_status t = js ''in_progress'')),
             ts_done = countOf tasks (filter (\<lambda>t. task_status t = js ''done'')),
             ts_overdue = countOf tasks (overdueFilter clock 0)\<rparr>;
          workload = (case tasks of None \<Rightarrow> Map.empty | Some ts \<Rightarrow> workloadOf Map.empty ts)
      in (\<lparr>pc_project = map_option projectInfoOf project,
           pc_taskStats = taskStats,
           pc_recentTasks = map_option (\<lambda>ts. map recentTaskOf (take 10 ts)) tasks,
           pc_teamMembers = map_option (map (teamMemberOf workload)) members,
           pc_workloadDistribution = workload\<rparr>,
          [SelectProject projectId, SelectTasks projectId, SelectMembers projectId]))"

text \<open>\<^verbatim>\<open>getWorkspaceContext\<close> (lines 604 to 644).\<close>

definition getWorkspaceContext :: "backend \<Rightarrow> jstring \<Rightarrow> workspaceContext \<times> call list" where
  "getWorkspaceContext supabase userId =
     (let projects = selectProjects supabase;
          myTasks = selectMyTasks supabase userId;
          profiles = selectProfiles supabase
      in (\<lparr>wc_projects =
             map_option (map (\<lambda>p. \<lparr>ps_id = project_id p, ps_name = project_name p,
                                   ps_status = project_status p\<rparr>)) projects,
           wc_myPendingTasks =
             map_option (map (\<lambda>t. \<lparr>pt_id = task_id t, pt_title = task_title t,
                                   pt_status = task_status t, pt_priority = task_priority t,
                                   pt_dueDate = due_date t\<rparr>)) myTasks,
           wc_teamMembers =
             map_option (map (\<lambda>p. \<lparr>wm_id = mp_id p, wm_name = memberName p\<rparr>)) profiles\<rparr>,
          [SelectProjects, SelectMyTasks userId, SelectProfiles]))"

section \<open>The chat relay\<close>

text \<open>
  A request is its method, its \<^verbatim>\<open>authorization\<close> header and what \<^verbatim>\<open>req.json()\<close> answers:
  the parsed body, or the message of the error it rejects with.
\<close>

record request =
  req_method :: jstring
  req_authorization :: "jstring option"
  req_json :: "jstring + json"

datatype body =
    NoBody
  | ErrorBody jstring
  | ContextBody projectContext
  | StreamBody "byte list list"

text \<open>
  A response is its status, its content type and its body; the CORS headers, which
  every response carries, are left out.
\<close>

record response =
  resp_status :: nat
  resp_contentType :: "jstring option"
  resp_body :: body

text \<open>
  The answer of the gateway: its status, its body as a stream of chunks, and what
  \<^verbatim>\<open>response.text()\<close> answers.
\<close>

record upstream =
  up_status :: nat
  up_body :: "byte list list"
  up_text :: "jstring + jstring"

text \<open>
  The surroundings of one request: the backend behind the client, the clock, the
  configured key, what \<^verbatim>\<open>fetch\<close> answers for the request to the gateway (\<open>Inl\<close> when it
  rejects) and the texts of the engine's two TypeErrors.
\<close>

record environment =
  supabase :: backend
  clock :: "nat \<Rightarrow> int"
  LOVABLE_API_KEY :: "jstring option"
  gateway :: "jstring + upstream"
  destructureError :: jstring
  notIterableError :: jstring

text \<open>A thrown value is an instance of \<^verbatim>\<open>Error\<close> with its message, or something else.\<close>

datatype thrown = ErrorInstance jstring | OtherValue

definition jsonError :: "nat \<Rightarrow> jstring \<Rightarrow> response" where
  "jsonError st msg =
     \<lparr>resp_status = st, resp_contentType = Some (js ''application/json''),
      resp_body = ErrorBody msg\<rparr>"

text \<open>\<^verbatim>\<open>authHeader.replace("Bearer ", "")\<close> removes the first occurrence.\<close>

fun removeFirst :: "jstring \<Rightarrow> jstring \<Rightarrow> jstring" where
  "removeFirst pat [] = []"
| "removeFirst pat (c # cs) =
     (if startsWith pat (c # cs) then drop (length pat) (c # cs)
      else c # removeFirst pat cs)"

text \<open>
  The spread \<^verbatim>\<open>...messages\<close>: an array gives its elements and a string its code points;
  any other value is not iterable.
\<close>

fun codePoints :: "jstring \<Rightarrow> jstring list" where
  "codePoints [] = []"
| "codePoints [c] = [[c]]"
| "codePoints (c # d # cs) =
     (if 0xD800 \<le> c \<and> c \<le> 0xDBFF \<and> 0xDC00 \<le> d \<and> d \<le> 0xDFFF
      then [c, d] # codePoints cs
      else [c] # codePoints (d # cs))"

fun spread :: "json option \<Rightarrow> json list option" where
  "spread (Some (JArray vs)) = Some vs"
| "spread (Some (JString s)) = Some (map JString (codePoints s))"
| "spread v = None"

fun truthyOpt :: "json option \<Rightarrow> bool" where
  "truthyOpt None = False"
| "truthyOpt (Some v) = truthy v"

text \<open>Lines 489 to 528: the request to the gateway and the mapping of its answer.\<close>

definition forward :: "environment \<Rightarrow> payload \<Rightarrow> (thrown + response) \<times> call list" where
  "forward env p =
     (case gateway env of
        Inl msg \<Rightarrow> (Inl (ErrorInstance msg), [GatewayFetch p])
      | Inr response \<Rightarrow>
          if \<not> (200 \<le> up_status response \<and> up_status response \<le> 299) then
            if up_status response = 429 then
              (Inr (jsonError 429 (js ''Rate limit exceeded. Please try again later.'')),
               [GatewayFetch p])
            else if up_status response = 402 then
              (Inr (jsonError 402 (js ''AI credits exhausted. Please add more credits.'')),
               [GatewayFetch p])
            else
              (case up_text response of
                 Inl msg \<Rightarrow> (Inl (ErrorInstance msg), [GatewayFetch p])
               | Inr errorText \<Rightarrow>
                   (Inr (jsonError 500 (js ''AI service error'')),
                    [GatewayFetch p, ConsoleError]))
          else
            (Inr \<lparr>resp_status = 200, resp_contentType = Some (js ''text/event-stream''),
                  resp_body = StreamBody (up_body response)\<rparr>,
             [GatewayFetch p]))"

text \<open>
  Lines 462 to 487: the body, the \<^verbatim>\<open>get_context\<close> action, the context block and the key.
  Destructuring \<^verbatim>\<open>null\<close> is a TypeError; a member the body lacks is \<^verbatim>\<open>undefined\<close>.
\<close>

definition handleBody :: "environment \<Rightarrow> request \<Rightarrow> user \<Rightarrow> (thrown + response) \<times> call list" where
  "handleBody env req user =
     (case req_json req of
        Inl msg \<Rightarrow> (Inl (ErrorInstance msg), [])
      | Inr parsed \<Rightarrow>
          if parsed = JNull then (Inl (ErrorInstance (destructureError env)), [])
          else
            (let messages = member (js ''messages'') parsed;
                 projectId = member (js ''projectId'') parsed;
                 action = member (js ''action'') parsed
             in if action = Some (JString (js ''get_context'')) then
                  (case getProjectContext (supabase env) (clock env) (user_id user) projectId of
                     (context, calls) \<Rightarrow>
                       (Inr \<lparr>resp_status = 200,
                             resp_contentType = Some (js ''application/json''),
                             resp_body = ContextBody context\<rparr>,
                        calls))
                else
                  (case (if truthyOpt projectId then
                           (case getProjectContext (supabase env) (clock env) (user_id user)
                                   projectId of
                              (context, calls) \<Rightarrow> (ProjectContextBlock context, calls))
                         else
                           (case getWorkspaceContext (supabase env) (user_id user) of
                              (context, calls) \<Rightarrow> (WorkspaceContextBlock context, calls))) of
                     (contextMessage, calls) \<Rightarrow>
                       (case LOVABLE_API_KEY env of
                          None \<Rightarrow>
                            (Inl (ErrorInstance (js ''LOVABLE_API_KEY is not configured'')), calls)
                        | Some key \<Rightarrow>
                            if key = [] then
                              (Inl (ErrorInstance (js ''LOVABLE_API_KEY is not configured'')),
                               calls)
                            else
                              (case spread messages of
                                 None \<Rightarrow> (Inl (ErrorInstance (notIterableError env)), calls)
                               | Some ms \<Rightarrow>
                                   (case forward env
                                           \<lparr>gw_key = key, gw_model = gatewayModel,
                                            gw_context = contextMessage,
                                            gw_messages = ms, gw_stream = True\<rparr> of
                                      (r, calls') \<Rightarrow> (r, calls @ calls')))))))"

text \<open>
  Lines 439 to 460: the guard on the header and the verification of the token. The
  client of lines 447 to 449 is created from the function's environment; \<open>supabase env\<close>
  is the backend behind it.
\<close>

definition tryBlock :: "environment \<Rightarrow> request \<Rightarrow> (thrown + response) \<times> call list" where
  "tryBlock env req =
     (case req_authorization req of
        None \<Rightarrow> (Inr (jsonError 401 (js ''No authorization header'')), [])
      | Some authHeader \<Rightarrow>
          if authHeader = [] then (Inr (jsonError 401 (js ''No authorization header'')), [])
          else
            (let token = removeFirst (js ''Bearer '') authHeader
             in case authGetUser (supabase env) token of
                  None \<Rightarrow> (Inr (jsonError 401 (js ''Invalid token'')), [GetUser token])
                | Some user \<Rightarrow>
                    (case handleBody env req user of
                       (r, calls) \<Rightarrow> (r, GetUser token # calls))))"

text \<open>The \<^verbatim>\<open>catch\<close> clause (lines 530 to 536).\<close>

definition catchClause :: "thrown \<Rightarrow> response" where
  "catchClause error =
     (case error of
        ErrorInstance message \<Rightarrow> jsonError 500 message
      | OtherValue \<Rightarrow> jsonError 500 (js ''Unknown error''))"

text \<open>\<^verbatim>\<open>serve\<close>: the response and the calls made for it.\<close>

definition serve :: "environment \<Rightarrow> request \<Rightarrow> response \<times> call list" where
  "serve env req =
     (if req_method req = js ''OPTIONS'' then
        (\<lparr>resp_status = 200, resp_contentType = None, resp_body = NoBody\<rparr>, [])
      else
        (case tryBlock env req of
           (Inr r, calls) \<Rightarrow> (r, calls)
         | (Inl error, calls) \<Rightarrow> (catchClause error, calls @ [ConsoleError])))"

section \<open>Notions used in the statements about the decoder\<close>

text \<open>The text of a whole stream, decoded in one call.\<close>

definition decodeAll :: "byte list \<Rightarrow> jstring" where
  "decodeAll bytes = fst (decode newTextDecoder bytes)"

text \<open>The components of a loop's result.\<close>

definition doneFlag :: "'d list \<times> jstring \<times> bool \<Rightarrow> bool" where
  "doneFlag x = snd (snd x)"

definition bufferOf :: "'d list \<times> jstring \<times> bool \<Rightarrow> jstring" where
  "bufferOf x = fst (snd x)"

text \<open>
  The streaming loop, run on the whole text \<open>s\<close>, meets no sentinel line, or it meets
  one and only white space is left behind it.
\<close>

definition sentinelLast :: "(jstring \<Rightarrow> 'd outcome) \<Rightarrow> jstring \<Rightarrow> bool" where
  "sentinelLast rd s =
     (case lineLoop rd s of (events, textBuffer, streamDone) \<Rightarrow>
        streamDone \<longrightarrow> trim textBuffer = [])"


text \<open>
  For the proofs: the line without its carriage return, what the per-line rules of both
  loops make of a line, and the flush without its guard.
\<close>

definition chomp :: "jstring \<Rightarrow> jstring" where
  "chomp l = (if endsWith CR l then butlast l else l)"

datatype 'd kind = Ignored | Sentinel | Record "'d outcome"

definition classify :: "(jstring \<Rightarrow> 'd outcome) \<Rightarrow> jstring \<Rightarrow> 'd kind" where
  "classify rd line0 =
     (let line = chomp line0
      in if startsWith (js '':'') line \<or> trim line = [] then Ignored
         else if \<not> startsWith (js ''data: '') line then Ignored
         else if trim (drop 6 line) = js ''[DONE]'' then Sentinel
         else Record (rd (trim (drop 6 line))))"

definition flushAll :: "(jstring \<Rightarrow> 'd outcome) \<Rightarrow> jstring \<Rightarrow> 'd list" where
  "flushAll rd b = concat (map (flushLine rd) (split LF b))"

section \<open>Notions used in the statements about the relay and the assembler\<close>

text \<open>
  The relay has authenticated the request as \<open>user\<close>: the request is no pre-flight, it
  carries a header, and the backend resolves the token to \<open>user\<close>.
\<close>

definition authenticated :: "environment \<Rightarrow> request \<Rightarrow> user \<Rightarrow> bool" where
  "authenticated env req user \<longleftrightarrow>
     req_method req \<noteq> js ''OPTIONS'' \<and>
     (case req_authorization req of
        None \<Rightarrow> False
      | Some authHeader \<Rightarrow>
          authHeader \<noteq> [] \<and>
          authGetUser (supabase env) (removeFirst (js ''Bearer '') authHeader) = Some user)"

fun isGatewayFetch :: "call \<Rightarrow> bool" where
  "isGatewayFetch (GatewayFetch p) = True"
| "isGatewayFetch c = False"

text \<open>
  The spec's words for the name of an assignee: the full name, falling back to the email,
  falling back to \<^verbatim>\<open>"Unassigned"\<close>.
\<close>

definition displayNameSpec :: "assignee option \<Rightarrow> jstring" where
  "displayNameSpec profile =
     (case profile of
        None \<Rightarrow> js ''Unassigned''
      | Some p \<Rightarrow>
          (case assignee_full_name p of
             Some n \<Rightarrow>
               if n \<noteq> [] then n
               else if assignee_email p \<noteq> [] then assignee_email p else js ''Unassigned''
           | None \<Rightarrow> if assignee_email p \<noteq> [] then assignee_email p else js ''Unassigned''))"

text \<open>
  The spec's words for \<^verbatim>\<open>overdue\<close>: the due date is not null and earlier than the current
  time \<open>now\<close>, and the status is not \<^verbatim>\<open>done\<close>.
\<close>

definition overdueAt :: "int \<Rightarrow> task \<Rightarrow> bool" where
  "overdueAt now t \<longleftrightarrow>
     (case due_date t of None \<Rightarrow> False | Some due \<Rightarrow> due < now) \<and> task_status t \<noteq> js ''done''"

text \<open>
  The number of the clock reading at which the task at position \<open>i\<close> is examined: one
  reading was taken for every earlier task with a due date.
\<close>

definition readingsBefore :: "task list \<Rightarrow> nat \<Rightarrow> nat" where
  "readingsBefore ts i = length (filter (\<lambda>t. due_date t \<noteq> None) (take i ts))"

text \<open>
  The spec's words for the workload of a member: the tasks assigned to the member whose
  status is not \<^verbatim>\<open>done\<close>. And what the source counts: the tasks assigned to the member.
\<close>

definition openTaskCount :: "task list \<Rightarrow> jstring \<Rightarrow> nat" where
  "openTaskCount ts u =
     length (filter (\<lambda>t. assigned_to t = Some u \<and> task_status t \<noteq> js ''done'') ts)"

definition assignedCount :: "task list \<Rightarrow> jstring \<Rightarrow> nat" where
  "assignedCount ts u = length (filter (\<lambda>t. assigned_to t = Some u \<and> u \<noteq> []) ts)"

text \<open>The statistics of a project whose task lookup failed.\<close>

definition noStats :: taskStats where
  "noStats = \<lparr>ts_total = 0, ts_todo = 0, ts_inProgress = 0, ts_done = 0, ts_overdue = 0\<rparr>"

text \<open>The tasks the lookup answered; none when it failed.\<close>

definition tasksOf :: "backend \<Rightarrow> json option \<Rightarrow> task list" where
  "tasksOf b pid = (case selectTasks b pid of None \<Rightarrow> [] | Some ts \<Rightarrow> ts)"

section \<open>Concrete streams, rows and requests\<close>

text \<open>A record with the delta \<^verbatim>\<open>x\<close>, its data line and the sentinel line, as bytes.\<close>

definition recordX :: string where
  \<open>recordX = ''{"choices":[{"delta":{"content":"x"}}]}''\<close>

definition dataLineX :: "byte list" where
  "dataLineX = ascii (''data: '' @ recordX) @ [0x0A]"

definition doneLine :: "byte list" where
  "doneLine = ascii ''data: [DONE]'' @ [0x0A]"

text \<open>The two lines as text, without their line feed.\<close>

definition dataTextX :: jstring where
  "dataTextX = js (''data: '' @ recordX)"

definition doneText :: jstring where
  "doneText = js ''data: [DONE]''"

text \<open>
  Two tasks due at instant 1000: one still to do, assigned to a user who has an email
  but no full name, and one that is done.
\<close>

definition taskTodo :: task where
  "taskTodo =
     \<lparr>task_id = js ''t1'', task_title = js ''Write report'', task_status = js ''todo'',
      task_priority = js ''high'', due_date = Some 1000, assigned_to = Some (js ''u1''),
      task_profiles = Some \<lparr>assignee_full_name = None, assignee_email = js ''ada@example.com''\<rparr>\<rparr>"

definition taskDone :: task where
  "taskDone =
     \<lparr>task_id = js ''t2'', task_title = js ''Plan sprint'', task_status = js ''done'',
      task_priority = js ''low'', due_date = Some 1000, assigned_to = Some (js ''u2''),
      task_profiles = Some \<lparr>assignee_full_name = Some (js ''Bob''),
                            assignee_email = js ''bob@example.com''\<rparr>\<rparr>"

definition memberBob :: project_member where
  "memberBob =
     \<lparr>pm_profiles = Some \<lparr>mp_id = js ''u2'', mp_full_name = Some (js ''Bob''),
                          mp_email = js ''bob@example.com''\<rparr>\<rparr>"

text \<open>
  A backend that knows the token \<^verbatim>\<open>t0k\<close> and answers the lookups of a project with the
  two tasks and the member; and one whose every lookup fails.
\<close>

definition knownUser :: "jstring \<Rightarrow> user option" where
  "knownUser token = (if token = js ''t0k'' then Some \<lparr>user_id = js ''u1''\<rparr> else None)"

definition projectBackend :: backend where
  "projectBackend =
     \<lparr>authGetUser = knownUser,
      selectProject = (\<lambda>projectId. None),
      selectTasks = (\<lambda>projectId. Some [taskTodo, taskDone]),
      selectMembers = (\<lambda>projectId. Some [memberBob]),
      selectProjects = None,
      selectMyTasks = (\<lambda>userId. None),
      selectProfiles = None\<rparr>"

definition failingBackend :: backend where
  "failingBackend =
     \<lparr>authGetUser = knownUser,
      selectProject = (\<lambda>projectId. None),
      selectTasks = (\<lambda>projectId. None),
      selectMembers = (\<lambda>projectId. None),
      selectProjects = None,
      selectMyTasks = (\<lambda>userId. None),
      selectProfiles = None\<rparr>"

text \<open>
  An environment is a backend, a clock that stands at instant 5000, a key (or none) and
  the status with which the gateway answers.
\<close>

definition environmentOf :: "backend \<Rightarrow> jstring option \<Rightarrow> nat \<Rightarrow> environment" where
  "environmentOf b key st =
     \<lparr>supabase = b, clock = (\<lambda>k. 5000), LOVABLE_API_KEY = key,
      gateway = Inr \<lparr>up_status = st, up_body = [dataLineX, doneLine],
                     up_text = Inr (js ''upstream detail'')\<rparr>,
      destructureError = js ''Cannot destructure'',
      notIterableError = js ''messages is not iterable''\<rparr>"

text \<open>
  Requests: a pre-flight without header, a request without header, a chat request for
  project \<^verbatim>\<open>p1\<close>, the same with the action \<^verbatim>\<open>get_context\<close>, and one whose body is no
  JSON.
\<close>

definition preflight :: request where
  "preflight =
     \<lparr>req_method = js ''OPTIONS'', req_authorization = None, req_json = Inr JNull\<rparr>"

definition anonymousRequest :: request where
  "anonymousRequest =
     \<lparr>req_method = js ''POST'', req_authorization = None, req_json = Inr JNull\<rparr>"

definition chatBody :: json where
  "chatBody =
     JObject [(js ''messages'', JArray []), (js ''projectId'', JString (js ''p1''))]"

definition chatRequest :: request where
  "chatRequest =
     \<lparr>req_method = js ''POST'', req_authorization = Some (js ''Bearer t0k''),
      req_json = Inr chatBody\<rparr>"

definition contextBody :: json where
  "contextBody =
     JObject [(js ''projectId'', JString (js ''p1'')),
              (js ''action'', JString (js ''get_context''))]"

definition contextRequest :: request where
  "contextRequest =
     \<lparr>req_method = js ''POST'', req_authorization = Some (js ''Bearer t0k''),
      req_json = Inr contextBody\<rparr>"

definition malformedRequest :: request where
  "malformedRequest =
     \<lparr>req_method = js ''POST'', req_authorization = Some (js ''Bearer t0k''),
      req_json = Inl (js ''Unexpected end of JSON input'')\<rparr>"

section \<open>The decoder: lines, the flush and the loops\<close>

lemma dropWhile_all_iff:
  "(\<forall>x \<in> set (dropWhile P xs). P x) \<longleftrightarrow> (\<forall>x \<in> set xs. P x)"
  by (induction xs) auto

lemma trim_Nil_iff: "trim s = [] \<longleftrightarrow> (\<forall>c \<in> set s. isWhiteSpace c)"
  by (simp add: trim_def dropWhile_eq_Nil_conv dropWhile_all_iff)

lemma trim_snoc_ws:
  assumes "isWhiteSpace c"
  shows "trim (s @ [c]) = trim s"
proof (cases "\<forall>x \<in> set s. isWhiteSpace x")
  case True
  with assms have "trim (s @ [c]) = []" and "trim s = []"
    by (simp_all add: trim_Nil_iff)
  then show ?thesis by simp
next
  case False
  then have "dropWhile isWhiteSpace (s @ [c]) = dropWhile isWhiteSpace s @ [c]"
    by (auto simp: dropWhile_append)
  with assms show ?thesis
    by (simp add: trim_def)
qed

lemma isWhiteSpace_CR: "isWhiteSpace CR"
  by (simp add: isWhiteSpace_def CR_def)

lemma isWhiteSpace_LF: "isWhiteSpace LF"
  by (simp add: isWhiteSpace_def LF_def)

lemma indexOf_None_iff: "indexOf c xs = None \<longleftrightarrow> c \<notin> set xs"
  by (induction xs) (auto split: option.splits)

lemma indexOf_SomeD:
  "indexOf c xs = Some i \<Longrightarrow> xs = take i xs @ c # drop (Suc i) xs \<and> c \<notin> set (take i xs)"
  by (induction xs arbitrary: i) (auto split: if_splits option.splits)

lemma indexOf_append_Some:
  "indexOf c xs = Some i \<Longrightarrow> indexOf c (xs @ ys) = Some i"
  by (induction xs arbitrary: i) (auto split: if_splits option.splits)

lemma lineLoop_no_newline:
  "indexOf LF b = None \<Longrightarrow> lineLoop rd b = ([], b, False)"
  by (simp add: lineLoop.simps)

lemma lineLoop_step:
  assumes "indexOf LF b = Some i"
  shows "lineLoop rd b =
    (case classify rd (take i b) of
       Ignored \<Rightarrow> lineLoop rd (drop (Suc i) b)
     | Sentinel \<Rightarrow> ([], drop (Suc i) b, True)
     | Record (Delta c) \<Rightarrow>
         (case lineLoop rd (drop (Suc i) b) of (ev, r, d) \<Rightarrow> (c # ev, r, d))
     | Record NoDelta \<Rightarrow> lineLoop rd (drop (Suc i) b)
     | Record Throws \<Rightarrow> ([], chomp (take i b) @ LF # drop (Suc i) b, False))"
  apply (subst lineLoop.simps)
  apply (simp only: assms option.case Let_def chomp_def [symmetric] Suc_eq_plus1 [symmetric])
  apply (simp add: classify_def Let_def split: outcome.splits)
  done

lemma flushLine_classify:
  "flushLine rd raw = (case classify rd raw of Record (Delta c) \<Rightarrow> [c] | _ \<Rightarrow> [])"
  apply (subst flushLine.simps)
  apply (simp only: Let_def chomp_def [symmetric])
  apply (auto simp: classify_def Let_def chomp_def endsWith_def trim_Nil_iff split: outcome.splits)
  done

lemma split_no_sep: "c \<notin> set l \<Longrightarrow> split c l = [l]"
  by (induction l) auto

lemma split_line: "c \<notin> set l \<Longrightarrow> split c (l @ c # r) = l # split c r"
  by (induction l) auto

lemma split_pieces: "p \<in> set (split c b) \<Longrightarrow> set p \<subseteq> set b"
  by (induction b arbitrary: p) (fastforce split: if_splits list.splits)+

lemma classify_blank: "\<forall>c \<in> set l. isWhiteSpace c \<Longrightarrow> classify rd l = Ignored"
proof -
  assume a: "\<forall>c \<in> set l. isWhiteSpace c"
  have "set (chomp l) \<subseteq> set l"
    by (auto simp: chomp_def dest: in_set_butlastD)
  with a have "trim (chomp l) = []"
    by (auto simp: trim_Nil_iff)
  then show ?thesis by (simp add: classify_def)
qed

lemma flushLine_blank: "\<forall>c \<in> set l. isWhiteSpace c \<Longrightarrow> flushLine rd l = []"
  by (simp add: flushLine_classify classify_blank)

lemma finalFlush_flushAll: "finalFlush rd b = flushAll rd b"
proof (cases "trim b = []")
  case True
  then have "\<forall>p \<in> set (split LF b). flushLine rd p = []"
    using split_pieces [of _ LF b] by (auto simp: trim_Nil_iff intro!: flushLine_blank)
  with True show ?thesis
    by (simp add: finalFlush_def flushAll_def)
next
  case False
  then show ?thesis by (simp add: finalFlush_def flushAll_def)
qed

lemma flushAll_line:
  "LF \<notin> set l \<Longrightarrow> flushAll rd (l @ LF # r) = flushLine rd l @ flushAll rd r"
  by (simp add: flushAll_def split_line)

lemma flushAll_blank: "\<forall>c \<in> set b. isWhiteSpace c \<Longrightarrow> flushAll rd b = []"
  using split_pieces [of _ LF b] by (auto simp: flushAll_def intro!: flushLine_blank)

text \<open>A line that waits for more input is still such a line after the push-back.\<close>

lemma js_data: "js ''data: '' = [100, 97, 116, 97, 58, 32]"
  by (simp add: js_def)

lemma js_colon: "js '':'' = [58]"
  by (simp add: js_def)

lemma classify_data:
  "classify rd (100 # 97 # 116 # 97 # 58 # 32 # r) =
     (if endsWith CR r then
        (if trim (butlast r) = js ''[DONE]'' then Sentinel else Record (rd (trim (butlast r))))
      else
        (if trim r = js ''[DONE]'' then Sentinel else Record (rd (trim r))))"
proof -
  let ?p = "[100, 97, 116, 97, 58, 32] :: jstring"
  have nw: "\<not> isWhiteSpace (100 :: codeunit)"
    by (simp add: isWhiteSpace_def)
  have c: "chomp (?p @ r) = ?p @ chomp r"
    by (auto simp: chomp_def endsWith_def butlast_append CR_def)
  have 1: "\<not> startsWith (js '':'') (?p @ chomp r)"
    by (simp add: startsWith_def js_colon)
  have 2: "trim (?p @ chomp r) \<noteq> []"
    using nw by (auto simp: trim_Nil_iff)
  have 3: "startsWith (js ''data: '') (?p @ chomp r)"
    by (simp add: startsWith_def js_data)
  have 4: "drop 6 (?p @ chomp r) = chomp r"
    by simp
  have "classify rd (?p @ r) =
     (if trim (chomp r) = js ''[DONE]'' then Sentinel else Record (rd (trim (chomp r))))"
    unfolding classify_def c Let_def using 1 2 3 by (simp only: 4 if_False simp_thms)
  then show ?thesis
    by (simp add: chomp_def)
qed

lemma classify_RecordD:
  assumes "classify rd l = Record x"
  shows "\<exists>r. chomp l = 100 # 97 # 116 # 97 # 58 # 32 # r \<and> trim r \<noteq> js ''[DONE]'' \<and> x = rd (trim r)"
proof -
  from assms have sw: "startsWith (js ''data: '') (chomp l)"
    and nd: "trim (drop 6 (chomp l)) \<noteq> js ''[DONE]''"
    and x: "x = rd (trim (drop 6 (chomp l)))"
    by (auto simp: classify_def Let_def split: if_splits)
  have "chomp l = 100 # 97 # 116 # 97 # 58 # 32 # drop 6 (chomp l)"
  proof -
    from sw have "take (length (js ''data: '')) (chomp l) = js ''data: ''"
      by (simp only: startsWith_def)
    moreover have "length (js ''data: '') = 6"
      by (simp add: js_def)
    ultimately have "take 6 (chomp l) = js ''data: ''"
      by (simp only:)
    then show ?thesis
      using append_take_drop_id [of 6 "chomp l"] by (simp add: js_data)
  qed
  with nd x show ?thesis by blast
qed

lemma classify_chomp_Record:
  assumes "classify rd l = Record x"
  shows "classify rd (chomp l) = Record x"
proof -
  from classify_RecordD [OF assms] obtain r where
    m: "chomp l = 100 # 97 # 116 # 97 # 58 # 32 # r" and nd: "trim r \<noteq> js ''[DONE]''"
    and x: "x = rd (trim r)"
    by blast
  have "endsWith CR r \<Longrightarrow> trim (butlast r) = trim r"
  proof -
    assume "endsWith CR r"
    then have "r = butlast r @ [CR]"
      using append_butlast_last_id [of r] by (simp add: endsWith_def)
    then show ?thesis
      by (metis trim_snoc_ws isWhiteSpace_CR)
  qed
  with nd x show ?thesis
    by (simp add: m classify_data)
qed

lemma indexOf_line: "c \<notin> set l \<Longrightarrow> indexOf c (l @ c # r) = Some (length l)"
  by (induction l) auto

lemma lineLoop_line:
  assumes "LF \<notin> set l"
  shows "lineLoop rd (l @ LF # r) =
    (case classify rd l of
       Ignored \<Rightarrow> lineLoop rd r
     | Sentinel \<Rightarrow> ([], r, True)
     | Record (Delta c) \<Rightarrow> (case lineLoop rd r of (ev, r', d) \<Rightarrow> (c # ev, r', d))
     | Record NoDelta \<Rightarrow> lineLoop rd r
     | Record Throws \<Rightarrow> ([], chomp l @ LF # r, False))"
  using lineLoop_step [OF indexOf_line [OF assms], where rd = rd and r1 = r]
  by (simp split: kind.splits outcome.splits)

lemma lineLoop_no_line: "LF \<notin> set b \<Longrightarrow> lineLoop rd b = ([], b, False)"
  by (simp add: lineLoop_no_newline indexOf_None_iff)

lemma buffer_induct [case_names NoLine Line]:
  assumes nl: "\<And>b. LF \<notin> set b \<Longrightarrow> P b"
    and ln: "\<And>l r. LF \<notin> set l \<Longrightarrow> P r \<Longrightarrow> P (l @ LF # r)"
  shows "P b"
proof (induction "length b" arbitrary: b rule: less_induct)
  case less
  show ?case
  proof (cases "indexOf LF b")
    case None
    then show ?thesis by (simp add: nl indexOf_None_iff)
  next
    case (Some i)
    from indexOf_SomeD [OF Some] have b: "b = take i b @ LF # drop (Suc i) b"
      and l: "LF \<notin> set (take i b)" by simp_all
    from indexOf_less [OF Some] have "length (drop (Suc i) b) < length b" by simp
    then have "P (drop (Suc i) b)" by (rule less)
    with l have "P (take i b @ LF # drop (Suc i) b)" by (rule ln)
    with b show ?thesis by simp
  qed
qed

lemma chomp_no_LF: "LF \<notin> set l \<Longrightarrow> LF \<notin> set (chomp l)"
  by (auto simp: chomp_def dest: in_set_butlastD)

lemma lineLoop_flushAll:
  "lineLoop rd b = (ev, r, d) \<Longrightarrow> ev @ flushAll rd (r @ t) = flushAll rd (b @ t)"
proof (induction b arbitrary: ev rule: buffer_induct)
  case (NoLine b)
  then show ?case by (simp add: lineLoop_no_line)
next
  case (Line l b)
  note l = \<open>LF \<notin> set l\<close>
  have fl: "flushAll rd (l @ LF # b @ t) = flushLine rd l @ flushAll rd (b @ t)"
    using flushAll_line [OF l, of rd "b @ t"] by simp
  show ?case
  proof (cases "classify rd l")
    case Ignored
    with Line show ?thesis
      by (simp add: lineLoop_line fl flushLine_classify)
  next
    case Sentinel
    with Line.prems l fl show ?thesis
      by (auto simp: lineLoop_line flushLine_classify)
  next
    case (Record x)
    show ?thesis
    proof (cases x)
      case Throws
      have "flushAll rd (chomp l @ LF # b @ t) = flushLine rd (chomp l) @ flushAll rd (b @ t)"
        using flushAll_line [OF chomp_no_LF [OF l], of rd "b @ t"] by simp
      moreover have "classify rd (chomp l) = Record Throws"
        using Record Throws by (simp add: classify_chomp_Record)
      ultimately show ?thesis
        using Line.prems l Record Throws fl
        by (auto simp: lineLoop_line flushLine_classify)
    next
      case NoDelta
      with Record Line show ?thesis
        by (simp add: lineLoop_line fl flushLine_classify)
    next
      case (Delta c)
      with Record Line.prems l obtain ev' where "lineLoop rd b = (ev', r, d)" "ev = c # ev'"
        by (auto simp: lineLoop_line split: prod.splits)
      with Line.IH [of ev'] Record Delta show ?thesis
        by (simp add: fl flushLine_classify)
    qed
  qed
qed

lemma lineLoop_done_append:
  "lineLoop rd b = (ev, r, True) \<Longrightarrow> lineLoop rd (b @ t) = (ev, r @ t, True)"
proof (induction b arbitrary: ev rule: buffer_induct)
  case (NoLine b)
  then show ?case by (simp add: lineLoop_no_line)
next
  case (Line l b)
  note l = \<open>LF \<notin> set l\<close>
  have ap: "(l @ LF # b) @ t = l @ LF # (b @ t)" by simp
  show ?case
  proof (cases "classify rd l")
    case Ignored
    with Line show ?thesis
      unfolding ap by (simp add: lineLoop_line)
  next
    case Sentinel
    with Line.prems l show ?thesis
      unfolding ap by (auto simp: lineLoop_line)
  next
    case (Record x)
    show ?thesis
    proof (cases x)
      case Throws
      with Record Line.prems l show ?thesis
        by (simp add: lineLoop_line)
    next
      case NoDelta
      with Record Line show ?thesis
        unfolding ap by (simp add: lineLoop_line)
    next
      case (Delta c)
      with Record Line.prems l obtain ev' where "lineLoop rd b = (ev', r, True)" "ev = c # ev'"
        by (auto simp: lineLoop_line split: prod.splits)
      with Line.IH [of ev'] Record Delta l show ?thesis
        unfolding ap by (simp add: lineLoop_line)
    qed
  qed
qed

lemma lineLoop_resume:
  "lineLoop rd b = (ev1, b1, False) \<Longrightarrow>
     doneFlag (lineLoop rd (b1 @ t)) = doneFlag (lineLoop rd (b @ t)) \<and>
     (doneFlag (lineLoop rd (b @ t)) \<longrightarrow>
        bufferOf (lineLoop rd (b1 @ t)) = bufferOf (lineLoop rd (b @ t)))"
proof (induction b arbitrary: ev1 rule: buffer_induct)
  case (NoLine b)
  then show ?case by (simp add: lineLoop_no_line)
next
  case (Line l b)
  note l = \<open>LF \<notin> set l\<close>
  have ap: "(l @ LF # b) @ t = l @ LF # (b @ t)" by simp
  show ?case
  proof (cases "classify rd l")
    case Ignored
    with Line show ?thesis
      unfolding ap by (simp add: lineLoop_line)
  next
    case Sentinel
    with Line.prems l show ?thesis
      by (simp add: lineLoop_line)
  next
    case (Record x)
    show ?thesis
    proof (cases x)
      case Throws
      have c: "classify rd (chomp l) = Record Throws"
        using Record Throws by (simp add: classify_chomp_Record)
      have b1: "b1 = chomp l @ LF # b"
        using Record Throws Line.prems l by (simp add: lineLoop_line)
      have "lineLoop rd (chomp l @ LF # (b @ t)) = ([], chomp (chomp l) @ LF # (b @ t), False)"
        using c by (simp add: lineLoop_line chomp_no_LF [OF l])
      moreover have "lineLoop rd (l @ LF # (b @ t)) = ([], chomp l @ LF # (b @ t), False)"
        using Record Throws l by (simp add: lineLoop_line)
      ultimately show ?thesis
        unfolding ap by (simp add: b1 doneFlag_def)
    next
      case NoDelta
      with Record Line show ?thesis
        unfolding ap by (simp add: lineLoop_line)
    next
      case (Delta c)
      with Record Line.prems l obtain ev' where "lineLoop rd b = (ev', b1, False)"
        by (auto simp: lineLoop_line split: prod.splits)
      from Line.IH [OF this] Record Delta l show ?thesis
        unfolding ap by (simp add: lineLoop_line doneFlag_def bufferOf_def split: prod.splits)
    qed
  qed
qed

lemma decode_append:
  "decode d (a @ b) =
     (case decode d a of (s1, d1) \<Rightarrow> (case decode d1 b of (s2, d2) \<Rightarrow> (s1 @ s2, d2)))"
  by (induction a arbitrary: d) (auto split: prod.splits)

lemma trim_append_Nil: "trim (a @ b) = [] \<longleftrightarrow> trim a = [] \<and> trim b = []"
  by (auto simp: trim_Nil_iff)

lemma flushAll_trim_Nil: "trim b = [] \<Longrightarrow> flushAll rd b = []"
  by (simp add: flushAll_blank trim_Nil_iff)

lemma sentinelLast_resume:
  assumes "lineLoop rd b = (ev1, b1, False)" and "sentinelLast rd (b @ t)"
  shows "sentinelLast rd (b1 @ t)"
proof -
  obtain e r d where x: "lineLoop rd (b @ t) = (e, r, d)"
    by (cases "lineLoop rd (b @ t)") auto
  obtain e' r' d' where y: "lineLoop rd (b1 @ t) = (e', r', d')"
    by (cases "lineLoop rd (b1 @ t)") auto
  from lineLoop_resume [OF assms(1), of t] x y have "d' = d" "d \<longrightarrow> r' = r"
    by (simp_all add: doneFlag_def bufferOf_def)
  with assms(2) x y show ?thesis
    by (auto simp: sentinelLast_def)
qed

lemma readLoop_flushAll:
  "sentinelLast rd (buf @ fst (decode dec (concat chunks))) \<Longrightarrow>
     (case readLoop rd dec buf chunks of (ev, r, d) \<Rightarrow> ev @ finalFlush rd r) =
       flushAll rd (buf @ fst (decode dec (concat chunks)))"
proof (induction chunks arbitrary: buf dec)
  case Nil
  then show ?case by (simp add: finalFlush_flushAll)
next
  case (Cons c cs)
  obtain s dec' where dc: "decode dec c = (s, dec')"
    by (cases "decode dec c") auto
  define t where "t = fst (decode dec' (concat cs))"
  have whole: "fst (decode dec (c @ concat cs)) = s @ t"
    by (simp add: decode_append dc t_def split: prod.splits)
  obtain ev1 b1 d1 where ll: "lineLoop rd (buf @ s) = (ev1, b1, d1)"
    by (cases "lineLoop rd (buf @ s)") auto
  from Cons.prems have sl: "sentinelLast rd ((buf @ s) @ t)"
    by (simp add: whole)
  have fa: "ev1 @ flushAll rd (b1 @ t) = flushAll rd ((buf @ s) @ t)"
    using ll by (rule lineLoop_flushAll)
  show ?case
  proof (cases d1)
    case True
    with ll have "lineLoop rd ((buf @ s) @ t) = (ev1, b1 @ t, True)"
      by (simp only: lineLoop_done_append)
    with sl have "trim (b1 @ t) = []"
      by (simp add: sentinelLast_def)
    then have "flushAll rd (b1 @ t) = []" "flushAll rd b1 = []"
      by (simp_all add: flushAll_trim_Nil trim_append_Nil)
    with fa True ll dc show ?thesis
      by (simp add: whole finalFlush_flushAll)
  next
    case False
    with ll sl have "sentinelLast rd (b1 @ t)"
      by (auto intro: sentinelLast_resume)
    then have "(case readLoop rd dec' b1 cs of (ev, r, d) \<Rightarrow> ev @ finalFlush rd r) =
       flushAll rd (b1 @ t)"
      unfolding t_def by (rule Cons.IH)
    with fa False ll dc show ?thesis
      by (simp add: whole split: prod.splits)
  qed
qed

lemma streamChat_single: "streamChat rd [c] = flushAll rd (decodeAll c)"
proof -
  obtain s dec' where dc: "decode newTextDecoder c = (s, dec')"
    by (cases "decode newTextDecoder c") auto
  obtain ev r d where ll: "lineLoop rd s = (ev, r, d)"
    by (cases "lineLoop rd s") auto
  from lineLoop_flushAll [OF ll, of "[]"] have "ev @ flushAll rd r = flushAll rd s"
    by simp
  with dc ll show ?thesis
    by (simp add: streamChat_def decodeAll_def finalFlush_flushAll)
qed



subsection \<open>Evaluation of the concrete streams\<close>

lemma readRecord_recordX: "readRecord (js recordX) = Delta (JString (js ''x''))"
  unfolding recordX_def by code_simp

lemma decoded_lines:
  "decode newTextDecoder dataLineX = (dataTextX @ [LF], newTextDecoder\<lparr>bomSeen := True\<rparr>)"
  "decode newTextDecoder doneLine = (doneText @ [LF], newTextDecoder\<lparr>bomSeen := True\<rparr>)"
  "decode (newTextDecoder\<lparr>bomSeen := True\<rparr>) dataLineX =
     (dataTextX @ [LF], newTextDecoder\<lparr>bomSeen := True\<rparr>)"
  "decode (newTextDecoder\<lparr>bomSeen := True\<rparr>) doneLine =
     (doneText @ [LF], newTextDecoder\<lparr>bomSeen := True\<rparr>)"
  by (simp_all add: dataLineX_def doneLine_def dataTextX_def doneText_def recordX_def
      newTextDecoder_def ascii_def js_def utf8Handler_def leadByte_def utf16_def LF_def)

lemma recordX_facts:
  "LF \<notin> set (js recordX)" "\<not> endsWith CR (js recordX)" "trim (js recordX) = js recordX"
  "js recordX \<noteq> js ''[DONE]''"
  by (simp_all add: recordX_def js_def LF_def CR_def endsWith_def trim_def isWhiteSpace_def)

lemma doneText_facts:
  "LF \<notin> set doneText" "classify rd doneText = Sentinel"
  by (simp_all add: doneText_def js_def LF_def CR_def classify_data endsWith_def trim_def
      isWhiteSpace_def)

lemma dataTextX_facts:
  "LF \<notin> set dataTextX"
  "classify readRecord dataTextX = Record (Delta (JString (js ''x'')))"
proof -
  have eq: "dataTextX = 100 # 97 # 116 # 97 # 58 # 32 # js recordX"
    by (simp add: dataTextX_def js_def)
  show "LF \<notin> set dataTextX"
    using recordX_facts(1) by (simp add: eq LF_def)
  show "classify readRecord dataTextX = Record (Delta (JString (js ''x'')))"
    by (simp add: eq classify_data recordX_facts readRecord_recordX)
qed

lemma flushAll_Nil: "flushAll rd [] = []"
  by (simp add: flushAll_def flushLine_classify classify_blank)


subsection \<open>Chunk boundaries and the sentinel\<close>

text \<open>The sentinel first, a record behind it: in one chunk and in two.\<close>

lemma sentinel_then_record_once:
  "streamChat readRecord [doneLine @ dataLineX] = [JString (js ''x'')]"
proof -
  have "decodeAll (doneLine @ dataLineX) =
      doneText @ LF # dataTextX @ [LF]"
    by (simp add: decodeAll_def decode_append decoded_lines)
  then show ?thesis
    by (simp only: streamChat_single)
       (simp add: flushAll_line doneText_facts dataTextX_facts flushLine_classify flushAll_Nil)
qed

lemma sentinel_then_record_split:
  "streamChat readRecord [doneLine, dataLineX] = []"
proof -
  have "lineLoop readRecord (doneText @ [LF]) = ([], [], True)"
    by (simp add: lineLoop_line doneText_facts)
  then show ?thesis
    by (simp add: streamChat_def decoded_lines finalFlush_flushAll flushAll_Nil)
qed

text \<open>
  Claim C1, as stated, fails. The sentinel line and a data line behind it, delivered as
  two chunks, give no delta: the loop stops at the sentinel and the second chunk is
  never read. The same bytes delivered as one chunk give the delta \<^verbatim>\<open>x\<close>: the loop stops
  at the sentinel, and the final flush decodes the data line left in the buffer.
\<close>

theorem chunk_boundary_counterexample:
  "assistantContent (streamChat readRecord [doneLine, dataLineX]) = Some [] \<and>
   assistantContent (streamChat readRecord [concat [doneLine, dataLineX]]) = Some (js ''x'')"
  by (simp add: sentinel_then_record_once sentinel_then_record_split)

text \<open>
  Claim C1, amended: chunk-boundary invariance. For every record reader and every
  sequence of byte chunks such that the streaming loop, run on the whole decoded stream,
  meets no sentinel line or leaves only white space behind the one it meets, the delta
  events emitted chunk by chunk are those of a single call on the concatenated bytes:
  the same events in the same order, hence the same concatenated text.
\<close>

theorem chunk_boundary_invariance:
  assumes "sentinelLast rd (decodeAll (concat chunks))"
  shows "streamChat rd chunks = streamChat rd [concat chunks]"
proof -
  from assms have "sentinelLast rd ([] @ fst (decode newTextDecoder (concat chunks)))"
    by (simp add: decodeAll_def)
  from readLoop_flushAll [OF this]
  have "streamChat rd chunks = flushAll rd (decodeAll (concat chunks))"
    by (simp add: streamChat_def decodeAll_def)
  then show ?thesis
    by (simp add: streamChat_single)
qed

lemma record_then_sentinel_text:
  "decodeAll (concat [dataLineX, doneLine]) =
     dataTextX @ LF # doneText @ [LF]"
  by (simp add: decodeAll_def decode_append decoded_lines)

lemma record_then_sentinel_loop:
  "lineLoop readRecord (dataTextX @ LF # doneText @ [LF]) =
     ([JString (js ''x'')], [], True)"
  by (simp add: lineLoop_line doneText_facts dataTextX_facts)

text \<open>
  The invariance at a concrete stream: a record and the sentinel, in two chunks.
\<close>

theorem chunk_boundary_invariance_witness:
  "sentinelLast readRecord (decodeAll (concat [dataLineX, doneLine])) \<and>
   streamChat readRecord [dataLineX, doneLine] = streamChat readRecord [concat [dataLineX, doneLine]]"
proof -
  have h: "sentinelLast readRecord (decodeAll (concat [dataLineX, doneLine]))"
    by (simp only: record_then_sentinel_text sentinelLast_def record_then_sentinel_loop)
       (simp add: trim_def)
  from h chunk_boundary_invariance [OF h] show ?thesis
    by (rule conjI)
qed




section \<open>The relay: the guard, the gateway and the exceptions\<close>

lemma serve_authenticated:
  assumes "authenticated env req user"
  shows "serve env req =
    (case handleBody env req user of
       (Inr r, calls) \<Rightarrow>
         (r, GetUser (removeFirst (js ''Bearer '') (the (req_authorization req))) # calls)
     | (Inl error, calls) \<Rightarrow>
         (catchClause error,
          GetUser (removeFirst (js ''Bearer '') (the (req_authorization req))) # calls @ [ConsoleError]))"
  using assms
  by (auto simp: authenticated_def serve_def tryBlock_def Let_def split: option.splits prod.splits sum.splits)

lemma forward_calls:
  "forward env p = (r, calls) \<Longrightarrow> filter isGatewayFetch calls = [GatewayFetch p]"
  by (auto simp: forward_def split: sum.splits if_splits)

lemma forward_429:
  "gateway env = Inr up \<Longrightarrow> up_status up = 429 \<Longrightarrow>
     forward env p =
       (Inr (jsonError 429 (js ''Rate limit exceeded. Please try again later.'')), [GatewayFetch p])"
  by (simp add: forward_def)

lemma getProjectContext_calls:
  "getProjectContext b c u pid = (context, calls) \<Longrightarrow> filter isGatewayFetch calls = []"
  by (auto simp: getProjectContext_def Let_def)

lemma getWorkspaceContext_calls:
  "getWorkspaceContext b u = (context, calls) \<Longrightarrow> filter isGatewayFetch calls = []"
  by (auto simp: getWorkspaceContext_def Let_def)

text \<open>Either no request went to the gateway, or exactly the one of \<open>forward\<close>.\<close>

lemma handleBody_gateway:
  assumes "handleBody env req user = (r, calls)"
  shows "filter isGatewayFetch calls = [] \<or>
     (\<exists>p calls0 calls1. forward env p = (r, calls1) \<and> calls = calls0 @ calls1 \<and>
        filter isGatewayFetch calls0 = [])"
  using assms
  unfolding handleBody_def Let_def
  by (auto split: sum.splits if_splits prod.splits option.splits
      dest: getProjectContext_calls getWorkspaceContext_calls)

lemmas example_defs =
  environmentOf_def projectBackend_def failingBackend_def knownUser_def preflight_def
  anonymousRequest_def chatRequest_def chatBody_def contextRequest_def contextBody_def
  malformedRequest_def

lemma js_neq [simp]:
  "js ''POST'' \<noteq> js ''OPTIONS''" "js ''Bearer t0k'' \<noteq> []" "js ''k3y'' \<noteq> []"
  "js ''p1'' \<noteq> []"
  "removeFirst (js ''Bearer '') (js ''Bearer t0k'') = js ''t0k''"
  by (simp_all add: js_def startsWith_def)

lemma authenticated_examples:
  "authenticated (environmentOf projectBackend key st) chatRequest \<lparr>user_id = js ''u1''\<rparr>"
  "authenticated (environmentOf failingBackend key st) chatRequest \<lparr>user_id = js ''u1''\<rparr>"
  "authenticated (environmentOf projectBackend key st) contextRequest \<lparr>user_id = js ''u1''\<rparr>"
  "authenticated (environmentOf projectBackend key st) malformedRequest \<lparr>user_id = js ''u1''\<rparr>"
  by (simp_all add: authenticated_def example_defs)

lemma chatBody_members:
  "member (js ''messages'') chatBody = Some (JArray [])"
  "member (js ''projectId'') chatBody = Some (JString (js ''p1''))"
  "member (js ''action'') chatBody = None"
  by (simp_all add: chatBody_def js_def)

lemma contextBody_members:
  "member (js ''action'') contextBody = Some (JString (js ''get_context''))"
  "member (js ''projectId'') contextBody = Some (JString (js ''p1''))"
  by (simp_all add: contextBody_def js_def)

lemma content_types: "js ''application/json'' \<noteq> js ''text/event-stream''"
  by (simp add: js_def)

text \<open>
  The pre-flight of lines 434 to 436: a request with the method \<^verbatim>\<open>OPTIONS\<close> gets an empty
  answer with status 200 before any header is read, and no call is made for it.
\<close>

lemma preflight_answer:
  "req_method req = js ''OPTIONS'' \<Longrightarrow>
     serve env req = (\<lparr>resp_status = 200, resp_contentType = None, resp_body = NoBody\<rparr>, [])"
  by (simp add: serve_def)

text \<open>
  Claim C3: the missing-auth guard. For every request without \<^verbatim>\<open>authorization\<close> header no
  call is made: no lookup of the context assembler, no request to the gateway, whatever
  the method. And every such request that the relay handles, that is every one but the
  pre-flight, is answered with the JSON error \<^verbatim>\<open>No authorization header\<close> and status 401.
\<close>

theorem missing_auth_guard:
  assumes "req_authorization req = None"
  shows "snd (serve env req) = [] \<and>
    (req_method req \<noteq> js ''OPTIONS'' \<longrightarrow>
       fst (serve env req) = jsonError 401 (js ''No authorization header'') \<and>
       resp_status (fst (serve env req)) = 401)"
  using assms by (simp add: serve_def tryBlock_def jsonError_def)

text \<open>
  The guard at a \<^verbatim>\<open>POST\<close> request without header, and the calls of a pre-flight without
  header.
\<close>

theorem missing_auth_guard_witness:
  "snd (serve (environmentOf projectBackend (Some (js ''k3y'')) 200) anonymousRequest) = [] \<and>
   fst (serve (environmentOf projectBackend (Some (js ''k3y'')) 200) anonymousRequest) =
     jsonError 401 (js ''No authorization header'') \<and>
   resp_status (fst (serve (environmentOf projectBackend (Some (js ''k3y'')) 200)
     anonymousRequest)) = 401 \<and>
   snd (serve (environmentOf projectBackend (Some (js ''k3y'')) 200) preflight) = []"
proof -
  let ?env = "environmentOf projectBackend (Some (js ''k3y'')) 200"
  have a: "req_authorization anonymousRequest = None"
    "req_method anonymousRequest \<noteq> js ''OPTIONS''"
    by (simp_all add: anonymousRequest_def)
  have p: "req_authorization preflight = None"
    by (simp add: preflight_def)
  from missing_auth_guard [OF a(1), of ?env] a(2)
  have 1: "snd (serve ?env anonymousRequest) = []"
    "fst (serve ?env anonymousRequest) = jsonError 401 (js ''No authorization header'')"
    "resp_status (fst (serve ?env anonymousRequest)) = 401"
    by blast+
  from missing_auth_guard [OF p, of ?env]
  have 2: "snd (serve ?env preflight) = []"
    by blast
  from 1 2 show ?thesis
    by (intro conjI)
qed

text \<open>
  Claim C8, amended: the rate-limit mapping. Whenever the relay has sent its request to
  the gateway and the gateway answers with status 429, the relay answers with status 429
  and the JSON error \<^verbatim>\<open>Rate limit exceeded. Please try again later.\<close>, and the request to
  the gateway is the only one: it is not retried.
\<close>

theorem rate_limit_mapping:
  assumes "gateway env = Inr up" and "up_status up = 429"
    and "GatewayFetch p \<in> set (snd (serve env req))"
  shows "fst (serve env req) = jsonError 429 (js ''Rate limit exceeded. Please try again later.'') \<and>
    length (filter isGatewayFetch (snd (serve env req))) = 1"
proof -
  from assms(3) have nopt: "req_method req \<noteq> js ''OPTIONS''"
    by (auto simp: serve_def split: if_splits)
  obtain r calls where tb: "tryBlock env req = (r, calls)"
    by (cases "tryBlock env req") auto
  from assms(3) nopt tb have inc: "GatewayFetch p \<in> set calls"
    by (auto simp: serve_def split: sum.splits)
  then obtain authHeader user calls' where
    ah: "req_authorization req = Some authHeader" "authHeader \<noteq> []"
    and hb: "handleBody env req user = (r, calls')"
    and calls: "calls = GetUser (removeFirst (js ''Bearer '') authHeader) # calls'"
    using tb by (auto simp: tryBlock_def Let_def split: option.splits if_splits prod.splits)
  from inc calls have "GatewayFetch p \<in> set calls'"
    by simp
  moreover have "isGatewayFetch (GatewayFetch p)"
    by simp
  ultimately have "filter isGatewayFetch calls' \<noteq> []"
    unfolding filter_empty_conv by blast
  with handleBody_gateway [OF hb] obtain q calls0 calls1 where
    fw: "forward env q = (r, calls1)" and c: "calls' = calls0 @ calls1"
    and c0: "filter isGatewayFetch calls0 = []"
    by blast
  from fw forward_429 [OF assms(1,2), of q] have r: "r = Inr (jsonError 429 (js ''Rate limit exceeded. Please try again later.''))"
    and c1: "calls1 = [GatewayFetch q]"
    by simp_all
  from nopt tb r calls c c0 c1 show ?thesis
    by (simp add: serve_def)
qed


lemma handleBody_chat:
  assumes "req_json req = Inr parsed" and "parsed \<noteq> JNull"
    and "member (js ''action'') parsed \<noteq> Some (JString (js ''get_context''))"
    and "LOVABLE_API_KEY env = Some key" and "key \<noteq> []"
    and "spread (member (js ''messages'') parsed) = Some ms"
  shows "handleBody env req user =
    (let found =
       (if truthyOpt (member (js ''projectId'') parsed) then
          (case getProjectContext (supabase env) (clock env) (user_id user)
                  (member (js ''projectId'') parsed) of
             (context, calls) \<Rightarrow> (ProjectContextBlock context, calls))
        else
          (case getWorkspaceContext (supabase env) (user_id user) of
             (context, calls) \<Rightarrow> (WorkspaceContextBlock context, calls)))
     in case forward env
               \<lparr>gw_key = key, gw_model = gatewayModel, gw_context = fst found,
                gw_messages = ms, gw_stream = True\<rparr> of
          (r, calls') \<Rightarrow> (r, snd found @ calls'))"
  using assms by (simp add: handleBody_def Let_def split: prod.splits)

lemma environmentOf_simps:
  "supabase (environmentOf b key st) = b"
  "clock (environmentOf b key st) = (\<lambda>k. 5000)"
  "LOVABLE_API_KEY (environmentOf b key st) = key"
  "gateway (environmentOf b key st) =
     Inr \<lparr>up_status = st, up_body = [dataLineX, doneLine], up_text = Inr (js ''upstream detail'')\<rparr>"
  by (simp_all add: environmentOf_def)

lemma chatRequest_simps:
  "req_json chatRequest = Inr chatBody" "chatBody \<noteq> JNull"
  "member (js ''action'') chatBody \<noteq> Some (JString (js ''get_context''))"
  "spread (member (js ''messages'') chatBody) = Some []"
  "truthyOpt (member (js ''projectId'') chatBody)"
  by (simp_all add: chatRequest_def chatBody_members) (simp_all add: chatBody_def js_def)

lemma handleBody_chatRequest:
  "handleBody (environmentOf b (Some (js ''k3y'')) st) chatRequest user =
     (case forward (environmentOf b (Some (js ''k3y'')) st)
             \<lparr>gw_key = js ''k3y'', gw_model = gatewayModel,
              gw_context = ProjectContextBlock
                (fst (getProjectContext b (\<lambda>k. 5000) (user_id user) (Some (JString (js ''p1''))))),
              gw_messages = [], gw_stream = True\<rparr> of
        (r, calls') \<Rightarrow>
          (r, snd (getProjectContext b (\<lambda>k. 5000) (user_id user) (Some (JString (js ''p1''))))
              @ calls'))"
  by (simp add: handleBody_chat [OF chatRequest_simps(1,2,3) environmentOf_simps(3) js_neq(3)
        chatRequest_simps(4)] chatRequest_simps(5) environmentOf_simps chatBody_members
      split: prod.splits)

text \<open>
  Claim C8, as stated, fails in the message: on the gateway's 429 the relay answers 429,
  but the error text is \<^verbatim>\<open>Rate limit exceeded. Please try again later.\<close> and not the
  literal \<^verbatim>\<open>rate limit exceeded, retry later\<close> of the claim.
\<close>

theorem rate_limit_counterexample:
  "resp_status (fst (serve (environmentOf projectBackend (Some (js ''k3y'')) 429) chatRequest)) = 429 \<and>
   resp_body (fst (serve (environmentOf projectBackend (Some (js ''k3y'')) 429) chatRequest)) =
     ErrorBody (js ''Rate limit exceeded. Please try again later.'') \<and>
   resp_body (fst (serve (environmentOf projectBackend (Some (js ''k3y'')) 429) chatRequest)) \<noteq>
     ErrorBody (js ''rate limit exceeded, retry later'')"
proof -
  have "fst (serve (environmentOf projectBackend (Some (js ''k3y'')) 429) chatRequest) =
      jsonError 429 (js ''Rate limit exceeded. Please try again later.'')"
    by (simp add: serve_authenticated [OF authenticated_examples(1)] handleBody_chatRequest
        forward_429 [OF environmentOf_simps(4)])
  moreover have "js ''Rate limit exceeded. Please try again later.'' \<noteq>
      js ''rate limit exceeded, retry later''"
    by (simp add: js_def)
  ultimately show ?thesis
    by (simp add: jsonError_def)
qed

text \<open>
  The mapping at the chat request, with a gateway that answers 429.
\<close>

theorem rate_limit_mapping_witness:
  "fst (serve (environmentOf projectBackend (Some (js ''k3y'')) 429) chatRequest) =
     jsonError 429 (js ''Rate limit exceeded. Please try again later.'') \<and>
   length (filter isGatewayFetch
     (snd (serve (environmentOf projectBackend (Some (js ''k3y'')) 429) chatRequest))) = 1"
proof -
  let ?env = "environmentOf projectBackend (Some (js ''k3y'')) 429"
  let ?p = "\<lparr>gw_key = js ''k3y'', gw_model = gatewayModel,
      gw_context = ProjectContextBlock
        (fst (getProjectContext projectBackend (\<lambda>k. 5000) (js ''u1'') (Some (JString (js ''p1''))))),
      gw_messages = [], gw_stream = True\<rparr>"
  have g: "gateway ?env = Inr \<lparr>up_status = 429, up_body = [dataLineX, doneLine],
      up_text = Inr (js ''upstream detail'')\<rparr>"
    by (rule environmentOf_simps)
  have s: "up_status \<lparr>up_status = 429, up_body = [dataLineX, doneLine],
      up_text = Inr (js ''upstream detail'')\<rparr> = 429"
    by simp
  have m: "GatewayFetch ?p \<in> set (snd (serve ?env chatRequest))"
    by (simp add: serve_authenticated [OF authenticated_examples(1)] handleBody_chatRequest
        forward_429 [OF environmentOf_simps(4)])
  show ?thesis
    by (rule rate_limit_mapping [OF g s m])
qed

text \<open>
  Claim C9: the \<^verbatim>\<open>get_context\<close> mode. For every request the relay has authenticated
  and whose JSON body has the member \<^verbatim>\<open>action\<close> equal to \<^verbatim>\<open>"get_context"\<close>, the answer
  has status 200 and the JSON body \<^verbatim>\<open>{context}\<close> with the snapshot that
  \<^verbatim>\<open>getProjectContext\<close> builds for the body's \<^verbatim>\<open>projectId\<close>; no request goes to the
  gateway, and the answer is no event stream.
\<close>

theorem get_context_mode:
  assumes "authenticated env req user" and "req_json req = Inr parsed"
    and "member (js ''action'') parsed = Some (JString (js ''get_context''))"
  shows "fst (serve env req) =
      \<lparr>resp_status = 200, resp_contentType = Some (js ''application/json''),
       resp_body = ContextBody (fst (getProjectContext (supabase env) (clock env) (user_id user)
                     (member (js ''projectId'') parsed)))\<rparr> \<and>
    filter isGatewayFetch (snd (serve env req)) = [] \<and>
    resp_contentType (fst (serve env req)) \<noteq> Some (js ''text/event-stream'')"
proof -
  let ?ctx = "getProjectContext (supabase env) (clock env) (user_id user)
      (member (js ''projectId'') parsed)"
  from assms(3) have nn: "parsed \<noteq> JNull"
    by auto
  have hb: "handleBody env req user =
      (Inr \<lparr>resp_status = 200, resp_contentType = Some (js ''application/json''),
            resp_body = ContextBody (fst ?ctx)\<rparr>, snd ?ctx)"
    using assms(2,3) nn by (simp add: handleBody_def Let_def split: prod.splits)
  have nc: "filter isGatewayFetch (snd ?ctx) = []"
    by (rule getProjectContext_calls [of _ _ _ _ "fst ?ctx"]) simp
  show ?thesis
    using nc content_types by (simp add: serve_authenticated [OF assms(1)] hb)
qed

text \<open>
  The mode at the request with the action, answered without a configured key.
\<close>

theorem get_context_mode_witness:
  "fst (serve (environmentOf projectBackend None 200) contextRequest) =
      \<lparr>resp_status = 200, resp_contentType = Some (js ''application/json''),
       resp_body = ContextBody (fst (getProjectContext projectBackend (\<lambda>k. 5000) (js ''u1'')
                     (Some (JString (js ''p1'')))))\<rparr> \<and>
    filter isGatewayFetch (snd (serve (environmentOf projectBackend None 200) contextRequest)) = [] \<and>
    resp_contentType (fst (serve (environmentOf projectBackend None 200) contextRequest)) \<noteq>
      Some (js ''text/event-stream'')"
proof -
  have j: "req_json contextRequest = Inr contextBody"
    by (simp add: contextRequest_def)
  from get_context_mode [OF authenticated_examples(3) j contextBody_members(1), of None 200]
  show ?thesis
    by (simp add: contextBody_members environmentOf_simps content_types)
qed





lemma getProjectContext_failing:
  "fst (getProjectContext failingBackend c u pid) =
     \<lparr>pc_project = None, pc_taskStats = noStats, pc_recentTasks = None,
      pc_teamMembers = None, pc_workloadDistribution = Map.empty\<rparr>"
  by (simp add: getProjectContext_def failingBackend_def countOf_def noStats_def)

lemma forward_ok:
  "gateway env = Inr up \<Longrightarrow> 200 \<le> up_status up \<Longrightarrow> up_status up \<le> 299 \<Longrightarrow>
     forward env p =
       (Inr \<lparr>resp_status = 200, resp_contentType = Some (js ''text/event-stream''),
             resp_body = StreamBody (up_body up)\<rparr>, [GatewayFetch p])"
  by (simp add: forward_def)

text \<open>
  Claim C7, as stated, fails. With a backend whose every lookup fails, the assembler
  still answers a snapshot, with \<^verbatim>\<open>project\<close> null, all counts zero and \<^verbatim>\<open>recentTasks\<close> and
  \<^verbatim>\<open>teamMembers\<close> absent; and the relay does not answer a JSON error: it sends one
  request to the gateway, with that snapshot as its context block, and relays the event
  stream with status 200.
\<close>

theorem context_failure_counterexample:
  "fst (getProjectContext failingBackend (\<lambda>k. 5000) (js ''u1'') (Some (JString (js ''p1'')))) =
     \<lparr>pc_project = None, pc_taskStats = noStats, pc_recentTasks = None,
      pc_teamMembers = None, pc_workloadDistribution = Map.empty\<rparr> \<and>
   fst (serve (environmentOf failingBackend (Some (js ''k3y'')) 200) chatRequest) =
     \<lparr>resp_status = 200, resp_contentType = Some (js ''text/event-stream''),
      resp_body = StreamBody [dataLineX, doneLine]\<rparr> \<and>
   filter isGatewayFetch
     (snd (serve (environmentOf failingBackend (Some (js ''k3y'')) 200) chatRequest)) =
     [GatewayFetch
        \<lparr>gw_key = js ''k3y'', gw_model = gatewayModel,
         gw_context = ProjectContextBlock
           \<lparr>pc_project = None, pc_taskStats = noStats, pc_recentTasks = None,
            pc_teamMembers = None, pc_workloadDistribution = Map.empty\<rparr>,
         gw_messages = [], gw_stream = True\<rparr>]"
proof -
  have "serve (environmentOf failingBackend (Some (js ''k3y'')) 200) chatRequest =
     (\<lparr>resp_status = 200, resp_contentType = Some (js ''text/event-stream''),
       resp_body = StreamBody [dataLineX, doneLine]\<rparr>,
      GetUser (js ''t0k'') #
      snd (getProjectContext failingBackend (\<lambda>k. 5000) (js ''u1'') (Some (JString (js ''p1'')))) @
      [GatewayFetch \<lparr>gw_key = js ''k3y'', gw_model = gatewayModel,
         gw_context = ProjectContextBlock
           (fst (getProjectContext failingBackend (\<lambda>k. 5000) (js ''u1'')
              (Some (JString (js ''p1''))))),
         gw_messages = [], gw_stream = True\<rparr>])"
    by (simp add: serve_authenticated [OF authenticated_examples(2)] handleBody_chatRequest
        forward_ok [OF environmentOf_simps(4)])
       (simp add: chatRequest_def)
  moreover have "filter isGatewayFetch
      (snd (getProjectContext failingBackend (\<lambda>k. 5000) (js ''u1'') (Some (JString (js ''p1''))))) = []"
    by (simp add: getProjectContext_def Let_def)
  ultimately show ?thesis
    by (simp add: getProjectContext_failing)
qed

text \<open>
  Claim C7, amended: a lookup error is not surfaced. \<^verbatim>\<open>getProjectContext\<close> always
  answers a snapshot: \<^verbatim>\<open>project\<close> is null when the project lookup failed; the counts are
  zero, \<^verbatim>\<open>recentTasks\<close> is absent and the workload is empty when the task lookup failed;
  \<^verbatim>\<open>teamMembers\<close> is absent when the member lookup failed. And whatever the lookups
  answered, the relay goes on with that snapshot: for an authenticated chat request with
  a configured key and an iterable transcript, exactly one request is sent to the
  gateway; its context block is the snapshot the assembler answered (of the project when
  the body's \<^verbatim>\<open>projectId\<close> is truthy, of the workspace otherwise), and the relay's answer
  is what the gateway's answer to that request is mapped to.
\<close>

theorem context_failure_not_fatal:
  "(selectProject b pid = None \<longrightarrow> pc_project (fst (getProjectContext b c u pid)) = None) \<and>
   (selectTasks b pid = None \<longrightarrow>
      pc_taskStats (fst (getProjectContext b c u pid)) = noStats \<and>
      pc_recentTasks (fst (getProjectContext b c u pid)) = None \<and>
      pc_workloadDistribution (fst (getProjectContext b c u pid)) = Map.empty) \<and>
   (selectMembers b pid = None \<longrightarrow> pc_teamMembers (fst (getProjectContext b c u pid)) = None) \<and>
   (authenticated env req user \<and> req_json req = Inr parsed \<and> parsed \<noteq> JNull \<and>
    member (js ''action'') parsed \<noteq> Some (JString (js ''get_context'')) \<and>
    LOVABLE_API_KEY env = Some key \<and> key \<noteq> [] \<and>
    spread (member (js ''messages'') parsed) = Some ms \<and>
    sent =
      \<lparr>gw_key = key, gw_model = gatewayModel,
       gw_context =
         (if truthyOpt (member (js ''projectId'') parsed) then
            ProjectContextBlock
              (fst (getProjectContext (supabase env) (clock env) (user_id user)
                      (member (js ''projectId'') parsed)))
          else WorkspaceContextBlock (fst (getWorkspaceContext (supabase env) (user_id user)))),
       gw_messages = ms, gw_stream = True\<rparr> \<longrightarrow>
      filter isGatewayFetch (snd (serve env req)) = [GatewayFetch sent] \<and>
      fst (serve env req) =
        (case fst (forward env sent) of Inl error \<Rightarrow> catchClause error | Inr r \<Rightarrow> r))"
proof (intro conjI impI)
  assume "selectProject b pid = None"
  then show "pc_project (fst (getProjectContext b c u pid)) = None"
    by (simp add: getProjectContext_def Let_def)
next
  assume t: "selectTasks b pid = None"
  then show "pc_taskStats (fst (getProjectContext b c u pid)) = noStats"
    by (simp add: getProjectContext_def Let_def countOf_def noStats_def)
  from t show "pc_recentTasks (fst (getProjectContext b c u pid)) = None"
    by (simp add: getProjectContext_def Let_def)
  from t show "pc_workloadDistribution (fst (getProjectContext b c u pid)) = Map.empty"
    by (simp add: getProjectContext_def Let_def)
next
  assume "selectMembers b pid = None"
  then show "pc_teamMembers (fst (getProjectContext b c u pid)) = None"
    by (simp add: getProjectContext_def Let_def)
next
  assume a: "authenticated env req user \<and> req_json req = Inr parsed \<and> parsed \<noteq> JNull \<and>
    member (js ''action'') parsed \<noteq> Some (JString (js ''get_context'')) \<and>
    LOVABLE_API_KEY env = Some key \<and> key \<noteq> [] \<and>
    spread (member (js ''messages'') parsed) = Some ms \<and>
    sent =
      \<lparr>gw_key = key, gw_model = gatewayModel,
       gw_context =
         (if truthyOpt (member (js ''projectId'') parsed) then
            ProjectContextBlock
              (fst (getProjectContext (supabase env) (clock env) (user_id user)
                      (member (js ''projectId'') parsed)))
          else WorkspaceContextBlock (fst (getWorkspaceContext (supabase env) (user_id user)))),
       gw_messages = ms, gw_stream = True\<rparr>"
  then have au: "authenticated env req user"
    by simp
  define found where "found =
       (if truthyOpt (member (js ''projectId'') parsed) then
          (case getProjectContext (supabase env) (clock env) (user_id user)
                  (member (js ''projectId'') parsed) of
             (context, calls) \<Rightarrow> (ProjectContextBlock context, calls))
        else
          (case getWorkspaceContext (supabase env) (user_id user) of
             (context, calls) \<Rightarrow> (WorkspaceContextBlock context, calls)))"
  have nf: "filter isGatewayFetch (snd found) = []"
    by (auto simp: found_def split: prod.splits
        dest: getProjectContext_calls getWorkspaceContext_calls)
  define p where "p =
      \<lparr>gw_key = key, gw_model = gatewayModel, gw_context = fst found,
       gw_messages = ms, gw_stream = True\<rparr>"
  have "fst found =
         (if truthyOpt (member (js ''projectId'') parsed) then
            ProjectContextBlock
              (fst (getProjectContext (supabase env) (clock env) (user_id user)
                      (member (js ''projectId'') parsed)))
          else WorkspaceContextBlock (fst (getWorkspaceContext (supabase env) (user_id user))))"
    by (simp add: found_def split: prod.splits)
  with a have sent: "sent = p"
    by (simp add: p_def)
  obtain r calls' where fw: "forward env p = (r, calls')"
    by (cases "forward env p") auto
  from a have hb: "handleBody env req user = (r, snd found @ calls')"
    using handleBody_chat [of req parsed env key ms user] fw
    by (simp add: found_def [symmetric] p_def [symmetric] Let_def)
  from forward_calls [OF fw] nf
  show "filter isGatewayFetch (snd (serve env req)) = [GatewayFetch sent]"
    by (simp add: serve_authenticated [OF au] hb sent split: sum.splits)
  from fw show "fst (serve env req) =
      (case fst (forward env sent) of Inl error \<Rightarrow> catchClause error | Inr r \<Rightarrow> r)"
    by (simp add: serve_authenticated [OF au] hb sent split: sum.splits)
qed

text \<open>
  All of it at the backend whose lookups fail: the request to the gateway carries the
  snapshot without project, tasks and members, and the stream is relayed.
\<close>

theorem context_failure_not_fatal_witness:
  "pc_project (fst (getProjectContext failingBackend (\<lambda>k. 5000) (js ''u1'')
     (Some (JString (js ''p1''))))) = None \<and>
   pc_taskStats (fst (getProjectContext failingBackend (\<lambda>k. 5000) (js ''u1'')
     (Some (JString (js ''p1''))))) = noStats \<and>
   pc_recentTasks (fst (getProjectContext failingBackend (\<lambda>k. 5000) (js ''u1'')
     (Some (JString (js ''p1''))))) = None \<and>
   pc_workloadDistribution (fst (getProjectContext failingBackend (\<lambda>k. 5000) (js ''u1'')
     (Some (JString (js ''p1''))))) = Map.empty \<and>
   pc_teamMembers (fst (getProjectContext failingBackend (\<lambda>k. 5000) (js ''u1'')
     (Some (JString (js ''p1''))))) = None \<and>
   filter isGatewayFetch
     (snd (serve (environmentOf failingBackend (Some (js ''k3y'')) 200) chatRequest)) =
     [GatewayFetch
        \<lparr>gw_key = js ''k3y'', gw_model = gatewayModel,
         gw_context = ProjectContextBlock
           \<lparr>pc_project = None, pc_taskStats = noStats, pc_recentTasks = None,
            pc_teamMembers = None, pc_workloadDistribution = Map.empty\<rparr>,
         gw_messages = [], gw_stream = True\<rparr>] \<and>
   fst (serve (environmentOf failingBackend (Some (js ''k3y'')) 200) chatRequest) =
     \<lparr>resp_status = 200, resp_contentType = Some (js ''text/event-stream''),
      resp_body = StreamBody [dataLineX, doneLine]\<rparr>"
proof -
  let ?env = "environmentOf failingBackend (Some (js ''k3y'')) 200"
  let ?sent = "\<lparr>gw_key = js ''k3y'', gw_model = gatewayModel,
         gw_context = ProjectContextBlock
           \<lparr>pc_project = None, pc_taskStats = noStats, pc_recentTasks = None,
            pc_teamMembers = None, pc_workloadDistribution = Map.empty\<rparr>,
         gw_messages = [], gw_stream = True\<rparr>"
  have l: "selectProject failingBackend (Some (JString (js ''p1''))) = None"
    "selectTasks failingBackend (Some (JString (js ''p1''))) = None"
    "selectMembers failingBackend (Some (JString (js ''p1''))) = None"
    by (simp_all add: failingBackend_def)
  have f: "fst (forward ?env ?sent) =
      Inr \<lparr>resp_status = 200, resp_contentType = Some (js ''text/event-stream''),
           resp_body = StreamBody [dataLineX, doneLine]\<rparr>"
    by (simp add: forward_ok [OF environmentOf_simps(4)])
  from context_failure_not_fatal [of failingBackend "Some (JString (js ''p1''))" "\<lambda>k. 5000"
      "js ''u1''" ?env chatRequest "\<lparr>user_id = js ''u1''\<rparr>" chatBody "js ''k3y''" "[]" ?sent]
    l authenticated_examples(2) [of "Some (js ''k3y'')" 200] chatRequest_simps
    environmentOf_simps [of failingBackend "Some (js ''k3y'')" 200] f
  show ?thesis
    by (simp add: chatBody_members getProjectContext_failing)
qed

section \<open>The assembler: workload, overdue tasks and assignee names\<close>

lemma workloadOf_count:
  "workloadOf w ts u =
     (if assignedCount ts u = 0 then w u
      else Some ((case w u of None \<Rightarrow> 0 | Some n \<Rightarrow> n) + assignedCount ts u))"
proof (induction ts arbitrary: w)
  case Nil
  then show ?case by (simp add: assignedCount_def)
next
  case (Cons t ts)
  show ?case
  proof (cases "assigned_to t")
    case None
    then show ?thesis by (simp add: Cons.IH assignedCount_def)
  next
    case (Some a)
    show ?thesis
    proof (cases "a = []")
      case True
      with Some show ?thesis by (auto simp: Cons.IH assignedCount_def)
    next
      case False
      with Some show ?thesis by (auto simp: Cons.IH assignedCount_def)
    qed
  qed
qed

text \<open>
  Claim C6, amended: the workload counts assigned tasks. \<^verbatim>\<open>workloadDistribution\<close> maps
  an assignee to the number of the project's tasks assigned to that identity, whatever
  their status (and has no entry for an identity without tasks); and every team member's
  \<^verbatim>\<open>taskCount\<close> is that number for the member's identity, zero when there is none.
\<close>

theorem workload_counts_assigned:
  "pc_workloadDistribution (fst (getProjectContext b c u pid)) =
     (\<lambda>a. if assignedCount (tasksOf b pid) a = 0 then None
          else Some (assignedCount (tasksOf b pid) a)) \<and>
   map_option (map tm_taskCount) (pc_teamMembers (fst (getProjectContext b c u pid))) =
     map_option (map (\<lambda>m. assignedCount (tasksOf b pid) (workloadKey m))) (selectMembers b pid)"
proof -
  have w: "pc_workloadDistribution (fst (getProjectContext b c u pid)) =
     (\<lambda>a. if assignedCount (tasksOf b pid) a = 0 then None
          else Some (assignedCount (tasksOf b pid) a))"
    by (auto simp: getProjectContext_def Let_def tasksOf_def workloadOf_count assignedCount_def
        split: option.splits)
  have "pc_teamMembers (fst (getProjectContext b c u pid)) =
      map_option (map (teamMemberOf (pc_workloadDistribution (fst (getProjectContext b c u pid)))))
        (selectMembers b pid)"
    by (simp add: getProjectContext_def Let_def)
  then have "map_option (map tm_taskCount) (pc_teamMembers (fst (getProjectContext b c u pid))) =
     map_option (map (\<lambda>m. assignedCount (tasksOf b pid) (workloadKey m))) (selectMembers b pid)"
    by (simp add: w option.map_comp comp_def teamMemberOf_def if_distrib cong: if_cong)
  with w show ?thesis
    by (rule conjI)
qed

lemma task_simps:
  "assigned_to taskTodo = Some (js ''u1'')" "assigned_to taskDone = Some (js ''u2'')"
  "task_status taskTodo = js ''todo''" "task_status taskDone = js ''done''"
  "due_date taskTodo = Some 1000" "due_date taskDone = Some 1000"
  by (simp_all add: taskTodo_def taskDone_def)

lemma js_neq2:
  "js ''u1'' \<noteq> js ''u2''" "js ''u2'' \<noteq> js ''u1''" "js ''u2'' \<noteq> []" "js ''todo'' \<noteq> js ''done''" "js ''Bob'' \<noteq> []"
  by (simp_all add: js_def)

text \<open>
  Claim C6, as stated, fails: the member's only task is done, so the member has no open
  task, and yet the \<^verbatim>\<open>taskCount\<close> is 1.
\<close>

theorem workload_counterexample:
  "pc_teamMembers (fst (getProjectContext projectBackend (\<lambda>k. 5000) (js ''u1'')
      (Some (JString (js ''p1''))))) =
     Some [\<lparr>tm_id = Some (js ''u2''), tm_name = Some (js ''Bob''), tm_taskCount = 1\<rparr>] \<and>
   openTaskCount [taskTodo, taskDone] (js ''u2'') = 0"
  by (simp add: getProjectContext_def Let_def projectBackend_def teamMemberOf_def workloadKey_def
      memberBob_def memberName_def task_simps js_neq2 openTaskCount_def)

lemma card_Suc_split:
  "card {i. i < Suc n \<and> Q i} = (if Q 0 then 1 else 0) + card {i. i < n \<and> Q (Suc i)}"
proof -
  have eq: "{i. i < Suc n \<and> Q i} = {i::nat. i = 0 \<and> Q 0} \<union> Suc ` {i. i < n \<and> Q (Suc i)}"
    by (auto simp: image_iff less_Suc_eq_0_disj)
  have fin: "finite {i. i < n \<and> Q (Suc i)}"
    by simp
  have "card ({i::nat. i = 0 \<and> Q 0} \<union> Suc ` {i. i < n \<and> Q (Suc i)}) =
      card {i::nat. i = 0 \<and> Q 0} + card (Suc ` {i. i < n \<and> Q (Suc i)})"
    using fin by (subst card_Un_disjoint) auto
  moreover have "card (Suc ` {i. i < n \<and> Q (Suc i)}) = card {i. i < n \<and> Q (Suc i)}"
    by (rule card_image) simp
  moreover have "card {i::nat. i = 0 \<and> Q 0} = (if Q 0 then 1 else 0)"
    by (cases "Q 0") simp_all
  ultimately show ?thesis
    by (simp add: eq)
qed

lemma readingsBefore_Cons:
  "readingsBefore (t # ts) 0 = 0"
  "readingsBefore (t # ts) (Suc i) = (if due_date t \<noteq> None then 1 else 0) + readingsBefore ts i"
  by (simp_all add: readingsBefore_def)

lemma overdueFilter_length:
  "length (overdueFilter clk k ts) =
     card {i. i < length ts \<and> overdueAt (clk (k + readingsBefore ts i)) (ts ! i)}"
proof (induction ts arbitrary: k)
  case Nil
  then show ?case by simp
next
  case (Cons t ts)
  show ?case
  proof (cases "due_date t")
    case None
    then have "\<not> overdueAt (clk k) t"
      by (simp add: overdueAt_def)
    with None show ?thesis
      by (simp add: card_Suc_split readingsBefore_Cons Cons.IH)
  next
    case (Some due)
    then have "overdueAt (clk k) t \<longleftrightarrow> due < clk k \<and> task_status t \<noteq> js ''done''"
      by (simp add: overdueAt_def)
    with Some show ?thesis
      by (simp add: card_Suc_split readingsBefore_Cons Cons.IH [of "Suc k"])
  qed
qed

text \<open>
  Claim C5: the overdue count. \<^verbatim>\<open>overdue\<close> is the number of the project's tasks whose
  due date is not null and earlier than the current time, and whose status is not
  \<^verbatim>\<open>done\<close>; the current time of a task is the reading of the clock taken when the filter
  examines that task. The count is zero when the task lookup failed.
\<close>

theorem overdue_count:
  "ts_overdue (pc_taskStats (fst (getProjectContext b clk u pid))) =
     (case selectTasks b pid of
        None \<Rightarrow> 0
      | Some ts \<Rightarrow>
          card {i. i < length ts \<and> overdueAt (clk (readingsBefore ts i)) (ts ! i)})"
proof (cases "selectTasks b pid")
  case None
  then show ?thesis
    by (simp add: getProjectContext_def Let_def countOf_def)
next
  case (Some ts)
  have "length (overdueFilter clk 0 ts) =
      card {i. i < length ts \<and> overdueAt (clk (readingsBefore ts i)) (ts ! i)}"
    using overdueFilter_length [of clk 0 ts] by simp
  with Some show ?thesis
    by (simp add: getProjectContext_def Let_def countOf_def)
qed

lemma selectTasks_project: "selectTasks projectBackend pid = Some [taskTodo, taskDone]"
  by (simp add: projectBackend_def)

text \<open>
  Two tasks due at instant 1000, examined at instant 5000: the one to do is overdue, the
  one that is done is not, and \<^verbatim>\<open>overdue\<close> is 1.
\<close>

theorem overdue_count_witness:
  "ts_overdue (pc_taskStats (fst (getProjectContext projectBackend (\<lambda>k. 5000) (js ''u1'')
      (Some (JString (js ''p1'')))))) =
     card {i. i < length [taskTodo, taskDone] \<and>
              overdueAt 5000 ([taskTodo, taskDone] ! i)} \<and>
   ts_overdue (pc_taskStats (fst (getProjectContext projectBackend (\<lambda>k. 5000) (js ''u1'')
      (Some (JString (js ''p1'')))))) = 1 \<and>
   overdueAt 5000 taskTodo \<and> \<not> overdueAt 5000 taskDone"
proof -
  have 1: "ts_overdue (pc_taskStats (fst (getProjectContext projectBackend (\<lambda>k. 5000) (js ''u1'')
      (Some (JString (js ''p1'')))))) =
     card {i. i < length [taskTodo, taskDone] \<and>
              overdueAt 5000 ([taskTodo, taskDone] ! i)}"
    using overdue_count [of projectBackend "\<lambda>k. 5000" "js ''u1''" "Some (JString (js ''p1''))"]
    by (simp add: selectTasks_project)
  have 2: "ts_overdue (pc_taskStats (fst (getProjectContext projectBackend (\<lambda>k. 5000) (js ''u1'')
      (Some (JString (js ''p1'')))))) = 1"
    by (simp add: getProjectContext_def Let_def countOf_def selectTasks_project task_simps js_neq2)
  have 3: "overdueAt 5000 taskTodo" "\<not> overdueAt 5000 taskDone"
    by (simp_all add: overdueAt_def task_simps js_neq2)
  from 1 2 3 show ?thesis
    by simp
qed

text \<open>
  The workload at the project with the two tasks: the member's done task counts.
\<close>

theorem workload_counts_assigned_witness:
  "pc_workloadDistribution (fst (getProjectContext projectBackend (\<lambda>k. 5000) (js ''u1'')
      (Some (JString (js ''p1''))))) (js ''u2'') = Some 1 \<and>
   assignedCount [taskTodo, taskDone] (js ''u2'') = 1 \<and>
   map_option (map tm_taskCount) (pc_teamMembers (fst (getProjectContext projectBackend
      (\<lambda>k. 5000) (js ''u1'') (Some (JString (js ''p1'')))))) = Some [1]"
proof -
  have a: "assignedCount [taskTodo, taskDone] (js ''u2'') = 1"
    by (simp add: assignedCount_def task_simps js_neq2)
  have t: "tasksOf projectBackend (Some (JString (js ''p1''))) = [taskTodo, taskDone]"
    by (simp add: tasksOf_def selectTasks_project)
  have m: "selectMembers projectBackend (Some (JString (js ''p1''))) = Some [memberBob]"
    "workloadKey memberBob = js ''u2''"
    by (simp_all add: projectBackend_def workloadKey_def memberBob_def)
  from workload_counts_assigned [of projectBackend "\<lambda>k. 5000" "js ''u1''"
      "Some (JString (js ''p1''))"] a
  show ?thesis
    by (simp add: t m)
qed

text \<open>
  Claim C4 at a task whose assignee has an email and no full name: the snapshot names
  the assignee \<^verbatim>\<open>Unassigned\<close>, where the claim's rule (full name, else email, else
  \<^verbatim>\<open>Unassigned\<close>) gives the email. Line 593 reads \<^verbatim>\<open>full_name\<close> only, although the
  query of line 550 selects the email too and the names of the team members (line 597)
  do fall back to it.
\<close>

theorem assignee_email_ignored:
  "map_option (map rt_assignee) (pc_recentTasks (fst (getProjectContext projectBackend
      (\<lambda>k. 5000) (js ''u1'') (Some (JString (js ''p1'')))))) =
     Some [js ''Unassigned'', js ''Bob''] \<and>
   map (\<lambda>t. displayNameSpec (task_profiles t)) [taskTodo, taskDone] =
     [js ''ada@example.com'', js ''Bob''] \<and>
   js ''Unassigned'' \<noteq> js ''ada@example.com''"
proof -
  have "js ''ada@example.com'' \<noteq> []" "js ''Unassigned'' \<noteq> js ''ada@example.com''"
    by (simp_all add: js_def)
  then show ?thesis
    by (simp add: getProjectContext_def Let_def selectTasks_project recentTaskOf_def
        assigneeName_def displayNameSpec_def taskTodo_def taskDone_def js_neq2)
qed

end
